theory Spec2Isabelle
  imports Main "HOL-Library.Word"
begin

unbundle bit_operations_syntax

section \<open>The 68080 processor model (src/68080\_Emu)\<close>

text \<open>
  A shallow embedding of the processor core of the 68080 emulator: the register and flag
  state of \<^verbatim>\<open>m68k_cpu.h\<close>, the memory accessors of \<^verbatim>\<open>m68k_cpu.c\<close>, the flag,
  condition, breakpoint and reset routines of \<^verbatim>\<open>m68k_cpu_extended.c\<close>, the decoder of
  \<^verbatim>\<open>m68k_decode.c\<close>, the handler families of \<^verbatim>\<open>m68k_execute.c\<close> and
  \<^verbatim>\<open>m68k_execute2.c\<close>, and the addressing and BCD routines of \<^verbatim>\<open>m68k_addressing.c\<close>.

  C's fixed-width unsigned integers are words, so that \<open>+\<close> and \<open>-\<close> wrap around as in
  the source; \<^verbatim>\<open>size_t\<close> is taken as 64 bits wide (LP64). A function that
  mutates \<^verbatim>\<open>*cpu\<close> or the memory buffer returns the updated value.
\<close>

type_synonym u8 = "8 word"
type_synonym u16 = "16 word"
type_synonym u32 = "32 word"
type_synonym u64 = "64 word"
type_synonym size_t = "64 word"

subsection \<open>Operation tags\<close>

text \<open>
  \<^verbatim>\<open>OpCode\<close> is a C enumeration. The source compares tags by range
  (\<^verbatim>\<open>op >= OP_BRA && op <= OP_DBF\<close>) and computes them by addition
  (\<^verbatim>\<open>OP_BCC + (cond - 2)\<close>), so a tag is modelled as its enumeration value, each name
  standing for its position in the declaration.
\<close>

type_synonym OpCode = nat

abbreviation (input) OP_NOP :: OpCode where "OP_NOP \<equiv> 0"
abbreviation (input) OP_MOVE :: OpCode where "OP_MOVE \<equiv> 1"
abbreviation (input) OP_MOVEA :: OpCode where "OP_MOVEA \<equiv> 2"
abbreviation (input) OP_MOVEM :: OpCode where "OP_MOVEM \<equiv> 3"
abbreviation (input) OP_MOVEP :: OpCode where "OP_MOVEP \<equiv> 4"
abbreviation (input) OP_MOVEQ :: OpCode where "OP_MOVEQ \<equiv> 5"
abbreviation (input) OP_EXG :: OpCode where "OP_EXG \<equiv> 6"
abbreviation (input) OP_SWAP :: OpCode where "OP_SWAP \<equiv> 7"
abbreviation (input) OP_LEA :: OpCode where "OP_LEA \<equiv> 8"
abbreviation (input) OP_PEA :: OpCode where "OP_PEA \<equiv> 9"
abbreviation (input) OP_LINK :: OpCode where "OP_LINK \<equiv> 10"
abbreviation (input) OP_UNLK :: OpCode where "OP_UNLK \<equiv> 11"
abbreviation (input) OP_ADD :: OpCode where "OP_ADD \<equiv> 12"
abbreviation (input) OP_ADDA :: OpCode where "OP_ADDA \<equiv> 13"
abbreviation (input) OP_ADDI :: OpCode where "OP_ADDI \<equiv> 14"
abbreviation (input) OP_ADDQ :: OpCode where "OP_ADDQ \<equiv> 15"
abbreviation (input) OP_ADDX :: OpCode where "OP_ADDX \<equiv> 16"
abbreviation (input) OP_SUB :: OpCode where "OP_SUB \<equiv> 17"
abbreviation (input) OP_SUBA :: OpCode where "OP_SUBA \<equiv> 18"
abbreviation (input) OP_SUBI :: OpCode where "OP_SUBI \<equiv> 19"
abbreviation (input) OP_SUBQ :: OpCode where "OP_SUBQ \<equiv> 20"
abbreviation (input) OP_SUBX :: OpCode where "OP_SUBX \<equiv> 21"
abbreviation (input) OP_MULS :: OpCode where "OP_MULS \<equiv> 22"
abbreviation (input) OP_MULU :: OpCode where "OP_MULU \<equiv> 23"
abbreviation (input) OP_DIVS :: OpCode where "OP_DIVS \<equiv> 24"
abbreviation (input) OP_DIVU :: OpCode where "OP_DIVU \<equiv> 25"
abbreviation (input) OP_NEG :: OpCode where "OP_NEG \<equiv> 26"
abbreviation (input) OP_NEGX :: OpCode where "OP_NEGX \<equiv> 27"
abbreviation (input) OP_CLR :: OpCode where "OP_CLR \<equiv> 28"
abbreviation (input) OP_EXT :: OpCode where "OP_EXT \<equiv> 29"
abbreviation (input) OP_AND :: OpCode where "OP_AND \<equiv> 30"
abbreviation (input) OP_ANDI :: OpCode where "OP_ANDI \<equiv> 31"
abbreviation (input) OP_OR :: OpCode where "OP_OR \<equiv> 32"
abbreviation (input) OP_ORI :: OpCode where "OP_ORI \<equiv> 33"
abbreviation (input) OP_EOR :: OpCode where "OP_EOR \<equiv> 34"
abbreviation (input) OP_EORI :: OpCode where "OP_EORI \<equiv> 35"
abbreviation (input) OP_NOT :: OpCode where "OP_NOT \<equiv> 36"
abbreviation (input) OP_ASL :: OpCode where "OP_ASL \<equiv> 37"
abbreviation (input) OP_ASR :: OpCode where "OP_ASR \<equiv> 38"
abbreviation (input) OP_LSL :: OpCode where "OP_LSL \<equiv> 39"
abbreviation (input) OP_LSR :: OpCode where "OP_LSR \<equiv> 40"
abbreviation (input) OP_ROL :: OpCode where "OP_ROL \<equiv> 41"
abbreviation (input) OP_ROR :: OpCode where "OP_ROR \<equiv> 42"
abbreviation (input) OP_ROXL :: OpCode where "OP_ROXL \<equiv> 43"
abbreviation (input) OP_ROXR :: OpCode where "OP_ROXR \<equiv> 44"
abbreviation (input) OP_BCHG :: OpCode where "OP_BCHG \<equiv> 45"
abbreviation (input) OP_BCLR :: OpCode where "OP_BCLR \<equiv> 46"
abbreviation (input) OP_BSET :: OpCode where "OP_BSET \<equiv> 47"
abbreviation (input) OP_BTST :: OpCode where "OP_BTST \<equiv> 48"
abbreviation (input) OP_CMP :: OpCode where "OP_CMP \<equiv> 49"
abbreviation (input) OP_CMPA :: OpCode where "OP_CMPA \<equiv> 50"
abbreviation (input) OP_CMPI :: OpCode where "OP_CMPI \<equiv> 51"
abbreviation (input) OP_CMPM :: OpCode where "OP_CMPM \<equiv> 52"
abbreviation (input) OP_TST :: OpCode where "OP_TST \<equiv> 53"
abbreviation (input) OP_BRA :: OpCode where "OP_BRA \<equiv> 54"
abbreviation (input) OP_BSR :: OpCode where "OP_BSR \<equiv> 55"
abbreviation (input) OP_BCC :: OpCode where "OP_BCC \<equiv> 56"
abbreviation (input) OP_BCS :: OpCode where "OP_BCS \<equiv> 57"
abbreviation (input) OP_BEQ :: OpCode where "OP_BEQ \<equiv> 58"
abbreviation (input) OP_BNE :: OpCode where "OP_BNE \<equiv> 59"
abbreviation (input) OP_BGE :: OpCode where "OP_BGE \<equiv> 60"
abbreviation (input) OP_BGT :: OpCode where "OP_BGT \<equiv> 61"
abbreviation (input) OP_BHI :: OpCode where "OP_BHI \<equiv> 62"
abbreviation (input) OP_BLE :: OpCode where "OP_BLE \<equiv> 63"
abbreviation (input) OP_BLS :: OpCode where "OP_BLS \<equiv> 64"
abbreviation (input) OP_BLT :: OpCode where "OP_BLT \<equiv> 65"
abbreviation (input) OP_BMI :: OpCode where "OP_BMI \<equiv> 66"
abbreviation (input) OP_BPL :: OpCode where "OP_BPL \<equiv> 67"
abbreviation (input) OP_BVC :: OpCode where "OP_BVC \<equiv> 68"
abbreviation (input) OP_BVS :: OpCode where "OP_BVS \<equiv> 69"
abbreviation (input) OP_SCC :: OpCode where "OP_SCC \<equiv> 70"
abbreviation (input) OP_SCS :: OpCode where "OP_SCS \<equiv> 71"
abbreviation (input) OP_SEQ :: OpCode where "OP_SEQ \<equiv> 72"
abbreviation (input) OP_SNE :: OpCode where "OP_SNE \<equiv> 73"
abbreviation (input) OP_SGE :: OpCode where "OP_SGE \<equiv> 74"
abbreviation (input) OP_SGT :: OpCode where "OP_SGT \<equiv> 75"
abbreviation (input) OP_SHI :: OpCode where "OP_SHI \<equiv> 76"
abbreviation (input) OP_SLE :: OpCode where "OP_SLE \<equiv> 77"
abbreviation (input) OP_SLS :: OpCode where "OP_SLS \<equiv> 78"
abbreviation (input) OP_SLT :: OpCode where "OP_SLT \<equiv> 79"
abbreviation (input) OP_SMI :: OpCode where "OP_SMI \<equiv> 80"
abbreviation (input) OP_SPL :: OpCode where "OP_SPL \<equiv> 81"
abbreviation (input) OP_SVC :: OpCode where "OP_SVC \<equiv> 82"
abbreviation (input) OP_SVS :: OpCode where "OP_SVS \<equiv> 83"
abbreviation (input) OP_ST :: OpCode where "OP_ST \<equiv> 84"
abbreviation (input) OP_SF :: OpCode where "OP_SF \<equiv> 85"
abbreviation (input) OP_JMP :: OpCode where "OP_JMP \<equiv> 86"
abbreviation (input) OP_JSR :: OpCode where "OP_JSR \<equiv> 87"
abbreviation (input) OP_RTS :: OpCode where "OP_RTS \<equiv> 88"
abbreviation (input) OP_RTR :: OpCode where "OP_RTR \<equiv> 89"
abbreviation (input) OP_RTE :: OpCode where "OP_RTE \<equiv> 90"
abbreviation (input) OP_DBCC :: OpCode where "OP_DBCC \<equiv> 91"
abbreviation (input) OP_DBCS :: OpCode where "OP_DBCS \<equiv> 92"
abbreviation (input) OP_DBEQ :: OpCode where "OP_DBEQ \<equiv> 93"
abbreviation (input) OP_DBNE :: OpCode where "OP_DBNE \<equiv> 94"
abbreviation (input) OP_DBGE :: OpCode where "OP_DBGE \<equiv> 95"
abbreviation (input) OP_DBGT :: OpCode where "OP_DBGT \<equiv> 96"
abbreviation (input) OP_DBHI :: OpCode where "OP_DBHI \<equiv> 97"
abbreviation (input) OP_DBLE :: OpCode where "OP_DBLE \<equiv> 98"
abbreviation (input) OP_DBLS :: OpCode where "OP_DBLS \<equiv> 99"
abbreviation (input) OP_DBLT :: OpCode where "OP_DBLT \<equiv> 100"
abbreviation (input) OP_DBMI :: OpCode where "OP_DBMI \<equiv> 101"
abbreviation (input) OP_DBPL :: OpCode where "OP_DBPL \<equiv> 102"
abbreviation (input) OP_DBVC :: OpCode where "OP_DBVC \<equiv> 103"
abbreviation (input) OP_DBVS :: OpCode where "OP_DBVS \<equiv> 104"
abbreviation (input) OP_DBT :: OpCode where "OP_DBT \<equiv> 105"
abbreviation (input) OP_DBF :: OpCode where "OP_DBF \<equiv> 106"
abbreviation (input) OP_TRAP :: OpCode where "OP_TRAP \<equiv> 107"
abbreviation (input) OP_TRAPV :: OpCode where "OP_TRAPV \<equiv> 108"
abbreviation (input) OP_CHK :: OpCode where "OP_CHK \<equiv> 109"
abbreviation (input) OP_RESET :: OpCode where "OP_RESET \<equiv> 110"
abbreviation (input) OP_STOP :: OpCode where "OP_STOP \<equiv> 111"
abbreviation (input) OP_ANDI_SR :: OpCode where "OP_ANDI_SR \<equiv> 112"
abbreviation (input) OP_EORI_SR :: OpCode where "OP_EORI_SR \<equiv> 113"
abbreviation (input) OP_ORI_SR :: OpCode where "OP_ORI_SR \<equiv> 114"
abbreviation (input) OP_ANDI_CCR :: OpCode where "OP_ANDI_CCR \<equiv> 115"
abbreviation (input) OP_EORI_CCR :: OpCode where "OP_EORI_CCR \<equiv> 116"
abbreviation (input) OP_ORI_CCR :: OpCode where "OP_ORI_CCR \<equiv> 117"
abbreviation (input) OP_MOVE_SR :: OpCode where "OP_MOVE_SR \<equiv> 118"
abbreviation (input) OP_MOVE_CCR :: OpCode where "OP_MOVE_CCR \<equiv> 119"
abbreviation (input) OP_MOVE_USP :: OpCode where "OP_MOVE_USP \<equiv> 120"
abbreviation (input) OP_TAS :: OpCode where "OP_TAS \<equiv> 121"
abbreviation (input) OP_NBCD :: OpCode where "OP_NBCD \<equiv> 122"
abbreviation (input) OP_ABCD :: OpCode where "OP_ABCD \<equiv> 123"
abbreviation (input) OP_SBCD :: OpCode where "OP_SBCD \<equiv> 124"
abbreviation (input) OP_MOVEC :: OpCode where "OP_MOVEC \<equiv> 125"
abbreviation (input) OP_MOVES :: OpCode where "OP_MOVES \<equiv> 126"
abbreviation (input) OP_RTD :: OpCode where "OP_RTD \<equiv> 127"
abbreviation (input) OP_BKPT :: OpCode where "OP_BKPT \<equiv> 128"
abbreviation (input) OP_BFCHG :: OpCode where "OP_BFCHG \<equiv> 129"
abbreviation (input) OP_BFCLR :: OpCode where "OP_BFCLR \<equiv> 130"
abbreviation (input) OP_BFEXTS :: OpCode where "OP_BFEXTS \<equiv> 131"
abbreviation (input) OP_BFEXTU :: OpCode where "OP_BFEXTU \<equiv> 132"
abbreviation (input) OP_BFFFO :: OpCode where "OP_BFFFO \<equiv> 133"
abbreviation (input) OP_BFINS :: OpCode where "OP_BFINS \<equiv> 134"
abbreviation (input) OP_BFSET :: OpCode where "OP_BFSET \<equiv> 135"
abbreviation (input) OP_BFTST :: OpCode where "OP_BFTST \<equiv> 136"
abbreviation (input) OP_CALLM :: OpCode where "OP_CALLM \<equiv> 137"
abbreviation (input) OP_CAS :: OpCode where "OP_CAS \<equiv> 138"
abbreviation (input) OP_CAS2 :: OpCode where "OP_CAS2 \<equiv> 139"
abbreviation (input) OP_CMP2 :: OpCode where "OP_CMP2 \<equiv> 140"
abbreviation (input) OP_DIVSL :: OpCode where "OP_DIVSL \<equiv> 141"
abbreviation (input) OP_DIVUL :: OpCode where "OP_DIVUL \<equiv> 142"
abbreviation (input) OP_EXTB :: OpCode where "OP_EXTB \<equiv> 143"
abbreviation (input) OP_PACK :: OpCode where "OP_PACK \<equiv> 144"
abbreviation (input) OP_UNPK :: OpCode where "OP_UNPK \<equiv> 145"
abbreviation (input) OP_VADD :: OpCode where "OP_VADD \<equiv> 146"
abbreviation (input) OP_VSUB :: OpCode where "OP_VSUB \<equiv> 147"
abbreviation (input) OP_VMUL :: OpCode where "OP_VMUL \<equiv> 148"
abbreviation (input) OP_VDIV :: OpCode where "OP_VDIV \<equiv> 149"
abbreviation (input) OP_VAND :: OpCode where "OP_VAND \<equiv> 150"
abbreviation (input) OP_VOR :: OpCode where "OP_VOR \<equiv> 151"
abbreviation (input) OP_VXOR :: OpCode where "OP_VXOR \<equiv> 152"
abbreviation (input) OP_VNOT :: OpCode where "OP_VNOT \<equiv> 153"
abbreviation (input) OP_VLOAD :: OpCode where "OP_VLOAD \<equiv> 154"
abbreviation (input) OP_VSTORE :: OpCode where "OP_VSTORE \<equiv> 155"
abbreviation (input) OP_VMOVE :: OpCode where "OP_VMOVE \<equiv> 156"
abbreviation (input) OP_VDOT :: OpCode where "OP_VDOT \<equiv> 157"
abbreviation (input) OP_VCROSS :: OpCode where "OP_VCROSS \<equiv> 158"
abbreviation (input) OP_VABS :: OpCode where "OP_VABS \<equiv> 159"
abbreviation (input) OP_VSQRT :: OpCode where "OP_VSQRT \<equiv> 160"
abbreviation (input) OP_VMIN :: OpCode where "OP_VMIN \<equiv> 161"
abbreviation (input) OP_VMAX :: OpCode where "OP_VMAX \<equiv> 162"
abbreviation (input) OP_VSUM :: OpCode where "OP_VSUM \<equiv> 163"
abbreviation (input) OP_ADD64 :: OpCode where "OP_ADD64 \<equiv> 164"
abbreviation (input) OP_SUB64 :: OpCode where "OP_SUB64 \<equiv> 165"
abbreviation (input) OP_MUL64 :: OpCode where "OP_MUL64 \<equiv> 166"
abbreviation (input) OP_DIV64 :: OpCode where "OP_DIV64 \<equiv> 167"
abbreviation (input) OP_MOVE64 :: OpCode where "OP_MOVE64 \<equiv> 168"
abbreviation (input) OP_CMP64 :: OpCode where "OP_CMP64 \<equiv> 169"
abbreviation (input) OP_FMOVE :: OpCode where "OP_FMOVE \<equiv> 170"
abbreviation (input) OP_FADD :: OpCode where "OP_FADD \<equiv> 171"
abbreviation (input) OP_FSUB :: OpCode where "OP_FSUB \<equiv> 172"
abbreviation (input) OP_FMUL :: OpCode where "OP_FMUL \<equiv> 173"
abbreviation (input) OP_FDIV :: OpCode where "OP_FDIV \<equiv> 174"
abbreviation (input) OP_FSQRT :: OpCode where "OP_FSQRT \<equiv> 175"
abbreviation (input) OP_FABS :: OpCode where "OP_FABS \<equiv> 176"
abbreviation (input) OP_FNEG :: OpCode where "OP_FNEG \<equiv> 177"
abbreviation (input) OP_FCMP :: OpCode where "OP_FCMP \<equiv> 178"
abbreviation (input) OP_FTST :: OpCode where "OP_FTST \<equiv> 179"
abbreviation (input) OP_FSIN :: OpCode where "OP_FSIN \<equiv> 180"
abbreviation (input) OP_FCOS :: OpCode where "OP_FCOS \<equiv> 181"
abbreviation (input) OP_FTAN :: OpCode where "OP_FTAN \<equiv> 182"
abbreviation (input) OP_ILLEGAL :: OpCode where "OP_ILLEGAL \<equiv> 183"
abbreviation (input) OP_COUNT :: OpCode where "OP_COUNT \<equiv> 184"

subsection \<open>Status register flags and operand sizes\<close>

abbreviation (input) SR_CARRY :: u16 where "SR_CARRY \<equiv> 0x0001"
abbreviation (input) SR_OVERFLOW :: u16 where "SR_OVERFLOW \<equiv> 0x0002"
abbreviation (input) SR_ZERO :: u16 where "SR_ZERO \<equiv> 0x0004"
abbreviation (input) SR_NEGATIVE :: u16 where "SR_NEGATIVE \<equiv> 0x0008"
abbreviation (input) SR_EXTEND :: u16 where "SR_EXTEND \<equiv> 0x0010"
abbreviation (input) SR_INTERRUPT :: u16 where "SR_INTERRUPT \<equiv> 0x0700"
abbreviation (input) SR_SUPERVISOR :: u16 where "SR_SUPERVISOR \<equiv> 0x2000"
abbreviation (input) SR_TRACE :: u16 where "SR_TRACE \<equiv> 0x8000"

datatype OperandSize = SIZE_BYTE | SIZE_WORD | SIZE_LONG | SIZE_QUAD | SIZE_VECTOR

text \<open>The enumeration value of a size, as added to an address register.\<close>

fun size_val :: "OperandSize \<Rightarrow> u32" where
  "size_val SIZE_BYTE = 1"
| "size_val SIZE_WORD = 2"
| "size_val SIZE_LONG = 4"
| "size_val SIZE_QUAD = 8"
| "size_val SIZE_VECTOR = 64"

subsection \<open>Processor state\<close>

text \<open>
  The arrays of the C structures are lists (\<^verbatim>\<open>d[8]\<close>, \<^verbatim>\<open>a[8]\<close>, \<dots>). The
  double-precision registers \<^verbatim>\<open>fp[8]\<close> are kept as their 64-bit patterns; no
  floating-point arithmetic is modelled. The breakpoint array is the allocated block,
  of which the first \<open>num_breakpoints\<close> entries are in use.
\<close>

record Apollo_Regs =
  v_reg :: "u64 list"
  vr :: "u32 list"
  fp :: "u64 list"
  fpcr :: u32
  fpsr :: u32
  fpiar :: u32

record M68K_Breakpoint =
  address :: u32
  enabled :: bool
  hit_count :: u64
  condition :: "u8 list"

record M68K_CPU =
  d_reg :: "u32 list"
  a_reg :: "u32 list"
  pc :: u32
  sr :: u16
  usp :: u32
  ssp :: u32
  apollo :: Apollo_Regs
  apollo_mode :: bool
  halted :: bool
  trace_mode :: bool
  cycle_count :: u64
  instruction_count :: u64
  bus_data :: "u8 list"
  bus_address :: u32
  bus_active :: bool
  bus_transfers :: u32
  icache :: "u8 list"
  dcache :: "u8 list"
  icache_valid :: "bool list"
  dcache_valid :: "bool list"
  cache_hits :: u64
  cache_misses :: u64
  breakpoints :: "M68K_Breakpoint list"
  num_breakpoints :: int
  max_breakpoints :: int
  breakpoint_hit :: bool
  breakpoint_addr :: u32
  vbr :: u32
  branch_count :: u64
  branch_taken :: u64
  load_count :: u64
  store_count :: u64

subsection \<open>Initialisation and reset (m68k\_cpu\_extended.c)\<close>

definition zero_apollo :: Apollo_Regs where
  "zero_apollo = \<lparr> v_reg = replicate 16 0, vr = replicate 8 0, fp = replicate 8 0,
     fpcr = 0, fpsr = 0, fpiar = 0 \<rparr>"

definition zero_breakpoint :: M68K_Breakpoint where
  "zero_breakpoint = \<lparr> address = 0, enabled = False, hit_count = 0,
     condition = replicate 64 0 \<rparr>"

text \<open>
  \<^verbatim>\<open>m68k_init\<close>: \<^verbatim>\<open>memset\<close> to zero, then the four assignments, then a fresh
  zeroed array of 32 breakpoints from \<^verbatim>\<open>calloc\<close>. It overwrites every field of
  \<^verbatim>\<open>*cpu\<close>, so the state it leaves is a constant.
\<close>

definition m68k_init :: M68K_CPU where
  "m68k_init = \<lparr>
     d_reg = replicate 8 0, a_reg = replicate 8 0, pc = 0,
     sr = SR_SUPERVISOR, usp = 0, ssp = 0x10000,
     apollo = zero_apollo, apollo_mode = True,
     halted = False, trace_mode = False, cycle_count = 0, instruction_count = 0,
     bus_data = replicate 128 0, bus_address = 0, bus_active = False, bus_transfers = 0,
     icache = replicate 32768 0, dcache = replicate 32768 0,
     icache_valid = replicate 256 False, dcache_valid = replicate 256 False,
     cache_hits = 0, cache_misses = 0,
     breakpoints = replicate 32 zero_breakpoint, num_breakpoints = 0, max_breakpoints = 32,
     breakpoint_hit = False, breakpoint_addr = 0, vbr = 0,
     branch_count = 0, branch_taken = 0, load_count = 0, store_count = 0 \<rparr>"

definition m68k_reset :: "M68K_CPU \<Rightarrow> M68K_CPU" where
  "m68k_reset cpu =
     (let cycles = cycle_count cpu;
          instrs = instruction_count cpu;
          apollo_flag = apollo_mode cpu;
          bp = breakpoints cpu;
          num_bp = num_breakpoints cpu;
          max_bp = max_breakpoints cpu;
          cpu1 = m68k_init
      in cpu1\<lparr> cycle_count := cycles, instruction_count := instrs, apollo_mode := apollo_flag,
                breakpoints := bp, num_breakpoints := num_bp, max_breakpoints := max_bp \<rparr>)"

subsection \<open>Flags and the condition test (m68k\_cpu\_extended.c)\<close>

definition m68k_get_flag :: "M68K_CPU \<Rightarrow> u16 \<Rightarrow> bool" where
  "m68k_get_flag cpu flag = (sr cpu AND flag \<noteq> 0)"

definition m68k_set_flag :: "M68K_CPU \<Rightarrow> u16 \<Rightarrow> bool \<Rightarrow> M68K_CPU" where
  "m68k_set_flag cpu flag val =
     (if val then cpu\<lparr> sr := sr cpu OR flag \<rparr> else cpu\<lparr> sr := sr cpu AND NOT flag \<rparr>)"

definition m68k_set_flags :: "M68K_CPU \<Rightarrow> u32 \<Rightarrow> OperandSize \<Rightarrow> M68K_CPU" where
  "m68k_set_flags cpu result sz =
     (let is_zero = (case sz of
            SIZE_BYTE \<Rightarrow> (ucast result :: u8) = 0
          | SIZE_WORD \<Rightarrow> (ucast result :: u16) = 0
          | SIZE_LONG \<Rightarrow> result = 0
          | _ \<Rightarrow> False);
          is_neg = (case sz of
            SIZE_BYTE \<Rightarrow> sint (ucast result :: u8) < 0
          | SIZE_WORD \<Rightarrow> sint (ucast result :: u16) < 0
          | SIZE_LONG \<Rightarrow> sint result < 0
          | _ \<Rightarrow> False);
          cpu1 = m68k_set_flag cpu SR_ZERO is_zero
      in m68k_set_flag cpu1 SR_NEGATIVE is_neg)"

definition m68k_test_condition :: "M68K_CPU \<Rightarrow> u8 \<Rightarrow> bool" where
  "m68k_test_condition cpu cond =
     (let c = m68k_get_flag cpu SR_CARRY;
          v = m68k_get_flag cpu SR_OVERFLOW;
          z = m68k_get_flag cpu SR_ZERO;
          n = m68k_get_flag cpu SR_NEGATIVE
      in if cond = 0x0 then True
         else if cond = 0x1 then False
         else if cond = 0x2 then \<not> c \<and> \<not> z
         else if cond = 0x3 then c \<or> z
         else if cond = 0x4 then \<not> c
         else if cond = 0x5 then c
         else if cond = 0x6 then \<not> z
         else if cond = 0x7 then z
         else if cond = 0x8 then \<not> v
         else if cond = 0x9 then v
         else if cond = 0xA then \<not> n
         else if cond = 0xB then n
         else if cond = 0xC then (n \<and> v) \<or> (\<not> n \<and> \<not> v)
         else if cond = 0xD then (n \<and> \<not> v) \<or> (\<not> n \<and> v)
         else if cond = 0xE then \<not> z \<and> ((n \<and> v) \<or> (\<not> n \<and> \<not> v))
         else if cond = 0xF then z \<or> (n \<and> \<not> v) \<or> (\<not> n \<and> v)
         else False)"

subsection \<open>Fetch and sized memory access (m68k\_cpu.c)\<close>

text \<open>
  The memory image is the caller's byte buffer together with the size the caller states.
  \<^verbatim>\<open>memcpy(cpu->bus_data, &memory[bus_address], 128)\<close> copies the 128 bytes from the
  aligned address on; where they lie outside the buffer, C leaves the bytes read
  undetermined, and so does \<open>!\<close> here.
\<close>

definition bus_burst :: "u8 list \<Rightarrow> u32 \<Rightarrow> u8 list" where
  "bus_burst memory addr = map (\<lambda>i. memory ! (unat addr + i)) [0..<128]"

text \<open>
  \<^verbatim>\<open>cpu->pc >= mem_size - 1\<close> is an unsigned comparison in \<^verbatim>\<open>size_t\<close>: the
  subtraction wraps around when \<^verbatim>\<open>mem_size\<close> is 0.
\<close>

definition m68k_fetch_word :: "M68K_CPU \<Rightarrow> u8 list \<Rightarrow> size_t \<Rightarrow> u16 \<times> M68K_CPU" where
  "m68k_fetch_word cpu memory mem_size =
     (if (ucast (pc cpu) :: size_t) \<ge> mem_size - 1 then (0, cpu\<lparr> halted := True \<rparr>)
      else
        let cpu1 = cpu\<lparr> bus_address := pc cpu AND NOT 0x7F \<rparr>;
            cpu2 = cpu1\<lparr> bus_active := True \<rparr>;
            cpu3 = cpu2\<lparr> bus_data := bus_burst memory (bus_address cpu2) \<rparr>;
            w = push_bit 8 (ucast (memory ! unat (pc cpu3)) :: u16)
                  OR ucast (memory ! unat (pc cpu3 + 1));
            cpu4 = cpu3\<lparr> pc := pc cpu3 + 2 \<rparr>;
            cpu5 = cpu4\<lparr> cycle_count := cycle_count cpu4 + 1 \<rparr>
        in (w, cpu5))"

definition m68k_fetch_long :: "M68K_CPU \<Rightarrow> u8 list \<Rightarrow> size_t \<Rightarrow> u32 \<times> M68K_CPU" where
  "m68k_fetch_long cpu memory mem_size =
     (let (hi, cpu1) = m68k_fetch_word cpu memory mem_size;
          (lo, cpu2) = m68k_fetch_word cpu1 memory mem_size
      in (push_bit 16 (ucast hi :: u32) OR ucast lo, cpu2))"

text \<open>
  In \<^verbatim>\<open>addr + 1 < mem_size\<close> the sum is computed in 32 bits and then widened, and
  \<^verbatim>\<open>memory[addr + 1]\<close> indexes with that 32-bit sum.
\<close>

definition m68k_read_memory ::
  "M68K_CPU \<Rightarrow> u8 list \<Rightarrow> size_t \<Rightarrow> u32 \<Rightarrow> OperandSize \<Rightarrow> u32 \<times> M68K_CPU" where
  "m68k_read_memory cpu memory mem_size addr sz =
     (if (ucast addr :: size_t) \<ge> mem_size then (0, cpu)
      else
        let cpu1 = cpu\<lparr> bus_address := addr AND NOT 0x7F \<rparr>;
            cpu2 = cpu1\<lparr> bus_active := True \<rparr>;
            cpu3 = cpu2\<lparr> bus_data := bus_burst memory (bus_address cpu2) \<rparr>;
            cpu4 = cpu3\<lparr> load_count := load_count cpu3 + 1 \<rparr>;
            byte_at = (\<lambda>k. (ucast (memory ! unat (addr + k)) :: u32));
            val = (case sz of
                SIZE_BYTE \<Rightarrow> byte_at 0
              | SIZE_WORD \<Rightarrow>
                  if (ucast (addr + 1) :: size_t) < mem_size
                  then push_bit 8 (byte_at 0) OR byte_at 1 else 0
              | SIZE_LONG \<Rightarrow>
                  if (ucast (addr + 3) :: size_t) < mem_size
                  then push_bit 24 (byte_at 0) OR push_bit 16 (byte_at 1)
                         OR push_bit 8 (byte_at 2) OR byte_at 3
                  else 0
              | _ \<Rightarrow> 0);
            cpu5 = cpu4\<lparr> cycle_count := cycle_count cpu4 + 1 \<rparr>
        in (val, cpu5))"

definition m68k_write_memory ::
  "M68K_CPU \<Rightarrow> u8 list \<Rightarrow> size_t \<Rightarrow> u32 \<Rightarrow> u32 \<Rightarrow> OperandSize \<Rightarrow> M68K_CPU \<times> u8 list" where
  "m68k_write_memory cpu memory mem_size addr val sz =
     (if (ucast addr :: size_t) \<ge> mem_size then (cpu, memory)
      else
        let cpu1 = cpu\<lparr> bus_address := addr AND NOT 0x7F \<rparr>;
            cpu2 = cpu1\<lparr> bus_active := True \<rparr>;
            cpu3 = cpu2\<lparr> store_count := store_count cpu2 + 1 \<rparr>;
            byte_of = (\<lambda>k. (ucast (drop_bit k val AND 0xFF) :: u8));
            memory1 = (case sz of
                SIZE_BYTE \<Rightarrow> memory[unat addr := byte_of 0]
              | SIZE_WORD \<Rightarrow>
                  if (ucast (addr + 1) :: size_t) < mem_size
                  then memory[unat addr := byte_of 8, unat (addr + 1) := byte_of 0]
                  else memory
              | SIZE_LONG \<Rightarrow>
                  if (ucast (addr + 3) :: size_t) < mem_size
                  then memory[unat addr := byte_of 24, unat (addr + 1) := byte_of 16,
                              unat (addr + 2) := byte_of 8, unat (addr + 3) := byte_of 0]
                  else memory
              | _ \<Rightarrow> memory);
            cpu4 = cpu3\<lparr> cycle_count := cycle_count cpu3 + 1 \<rparr>
        in (cpu4, memory1))"

subsection \<open>Breakpoints (m68k\_cpu\_extended.c)\<close>

text \<open>
  \<^verbatim>\<open>m68k_add_breakpoint\<close>. When the array is full it is reallocated to twice the
  capacity; the entries that \<^verbatim>\<open>realloc\<close> adds are not initialised by the source.
  Only the three assigned fields of the new entry are written.
\<close>

definition m68k_add_breakpoint :: "M68K_CPU \<Rightarrow> u32 \<Rightarrow> M68K_CPU" where
  "m68k_add_breakpoint cpu addr =
     (let cpu1 = (if num_breakpoints cpu \<ge> max_breakpoints cpu
                  then cpu\<lparr> max_breakpoints := max_breakpoints cpu * 2,
                            breakpoints := breakpoints cpu
                              @ replicate (nat (max_breakpoints cpu * 2) - length (breakpoints cpu))
                                  undefined \<rparr>
                  else cpu);
          i = nat (num_breakpoints cpu1);
          bp = (breakpoints cpu1 ! i)\<lparr> address := addr, enabled := True, hit_count := 0 \<rparr>
      in cpu1\<lparr> breakpoints := (breakpoints cpu1)[i := bp],
                num_breakpoints := num_breakpoints cpu1 + 1 \<rparr>)"

text \<open>
  \<^verbatim>\<open>m68k_check_breakpoint\<close>: the \<^verbatim>\<open>for\<close> loop over the entries in use, from
  index \<open>i\<close> on; it returns at the first enabled entry with the address.
\<close>

function check_breakpoint_from :: "M68K_CPU \<Rightarrow> u32 \<Rightarrow> int \<Rightarrow> bool \<times> M68K_CPU" where
  "check_breakpoint_from cpu addr i =
     (if i < num_breakpoints cpu then
        (let bp = breakpoints cpu ! nat i in
         if enabled bp \<and> address bp = addr then
           (True, cpu\<lparr> breakpoints := (breakpoints cpu)[nat i := bp\<lparr> hit_count := hit_count bp + 1 \<rparr>],
                       breakpoint_hit := True, breakpoint_addr := addr \<rparr>)
         else check_breakpoint_from cpu addr (i + 1))
      else (False, cpu))"
  by pat_completeness auto
termination
  by (relation "measure (\<lambda>(cpu, addr, i). nat (num_breakpoints cpu - i))") auto

declare check_breakpoint_from.simps [simp del]

definition m68k_check_breakpoint :: "M68K_CPU \<Rightarrow> u32 \<Rightarrow> bool \<times> M68K_CPU" where
  "m68k_check_breakpoint cpu addr = check_breakpoint_from cpu addr 0"

subsection \<open>The instruction decoder (m68k\_decode.c)\<close>

text \<open>
  \<^verbatim>\<open>m68k_decode_instruction\<close> returns the tag and the eight parameter bytes. The
  tests of each line are tried in the order of the source; a \<^verbatim>\<open>switch\<close> without
  a matching case leaves the initial \<open>OP_ILLEGAL\<close>.
\<close>

definition no_params :: "u8 list" where
  "no_params = replicate 8 0"

definition decode_line0 :: "u16 \<Rightarrow> OpCode" where
  "decode_line0 opcode =
     (if opcode AND 0xF1C0 = 0x0100 then
        (let type = drop_bit 6 opcode AND 0x3 in
         if type = 0 then OP_BTST else if type = 1 then OP_BCHG
         else if type = 2 then OP_BCLR else OP_BSET)
      else if opcode AND 0xFFC0 = 0x0800 then OP_BTST
      else if opcode AND 0xFF00 = 0x0000 then
        (let operation = drop_bit 9 opcode AND 0x7 in
         if operation = 0 then OP_ORI
         else if operation = 1 then OP_ANDI
         else if operation = 2 then OP_SUBI
         else if operation = 3 then OP_ADDI
         else if operation = 5 then OP_EORI
         else if operation = 6 then OP_CMPI
         else OP_ILLEGAL)
      else if opcode AND 0xF138 = 0x0108 then OP_MOVEP
      else OP_ILLEGAL)"

definition decode_line4 :: "u16 \<Rightarrow> OpCode" where
  "decode_line4 opcode =
     (if opcode AND 0xFFC0 = 0x4E40 then OP_TRAP
      else if opcode = 0x4E70 then OP_RESET
      else if opcode = 0x4E71 then OP_NOP
      else if opcode = 0x4E72 then OP_STOP
      else if opcode = 0x4E73 then OP_RTE
      else if opcode = 0x4E75 then OP_RTS
      else if opcode = 0x4E76 then OP_TRAPV
      else if opcode = 0x4E77 then OP_RTR
      else if opcode AND 0xFFF0 = 0x4E50 then OP_LINK
      else if opcode AND 0xFFF8 = 0x4E58 then OP_UNLK
      else if opcode AND 0xFFC0 = 0x4E80 then OP_JSR
      else if opcode AND 0xFFC0 = 0x4EC0 then OP_JMP
      else if opcode AND 0xFF00 = 0x4000 then
        (let type = drop_bit 9 opcode AND 0x7 in
         if type = 0 then OP_NEGX
         else if type = 2 then OP_CLR
         else if type = 4 then OP_NEG
         else if type = 6 then OP_NOT
         else OP_ILLEGAL)
      else if opcode AND 0xFB80 = 0x4880 then OP_EXT
      else if opcode AND 0xFFC0 = 0x4AC0 then OP_TAS
      else if opcode AND 0xFF00 = 0x4A00 then OP_TST
      else if opcode AND 0xFFC0 = 0x4800 then OP_NBCD
      else if opcode AND 0xFFF8 = 0x4840 then OP_SWAP
      else if opcode AND 0xFFF8 = 0x4848 then OP_BKPT
      else if opcode AND 0xFFC0 = 0x4840 then OP_PEA
      else if opcode AND 0xFB80 = 0x4880 then OP_MOVEM
      else if opcode AND 0xFFC0 = 0x44C0 then OP_MOVE_CCR
      else if opcode AND 0xFFC0 = 0x46C0 then OP_MOVE_SR
      else if opcode AND 0xFF00 = 0x4200 then OP_CLR
      else if opcode AND 0xF1C0 = 0x41C0 then OP_LEA
      else if opcode AND 0xF1C0 = 0x4180 then OP_CHK
      else OP_ILLEGAL)"

definition decode_lineE :: "u16 \<Rightarrow> OpCode" where
  "decode_lineE opcode =
     (if opcode AND 0x0018 = 0x0000 then
        (let type = drop_bit 3 opcode AND 0x3;
             dir = drop_bit 8 opcode AND 0x1 in
         if type = 0 then (if dir \<noteq> 0 then OP_ASR else OP_ASL)
         else if type = 1 then (if dir \<noteq> 0 then OP_LSR else OP_LSL)
         else if type = 2 then (if dir \<noteq> 0 then OP_ROXR else OP_ROXL)
         else (if dir \<noteq> 0 then OP_ROR else OP_ROL))
      else OP_ILLEGAL)"

definition m68k_decode_instruction :: "M68K_CPU \<Rightarrow> u16 \<Rightarrow> OpCode \<times> u8 list" where
  "m68k_decode_instruction cpu opcode =
     (let hi4 = (ucast (drop_bit 12 opcode AND 0xF) :: u8);
          reg_dst = (ucast (drop_bit 9 opcode AND 0x7) :: u8);
          cond4 = (ucast (drop_bit 8 opcode AND 0xF) :: u8)
      in
      if hi4 = 0x0 then (decode_line0 opcode, no_params)
      else if hi4 = 0x1 \<or> hi4 = 0x2 \<or> hi4 = 0x3 then
        ((if opcode AND 0x01C0 = 0x0040 then OP_MOVEA else OP_MOVE), no_params[0 := hi4])
      else if hi4 = 0x4 then
        (decode_line4 opcode,
         if opcode AND 0xFFC0 = 0x4E40 then no_params[0 := ucast (opcode AND 0xF)] else no_params)
      else if hi4 = 0x5 then
        (if opcode AND 0xF0C0 = 0x50C0 then
           (if opcode AND 0x38 = 0x08
            then (OP_DBCC + unat cond4, no_params[0 := cond4])
            else (OP_SCC + unat cond4, no_params[0 := cond4]))
         else
           ((if drop_bit 8 opcode AND 1 \<noteq> 0 then OP_SUBQ else OP_ADDQ),
            no_params[0 := (if reg_dst \<noteq> 0 then reg_dst else 8)]))
      else if hi4 = 0x6 then
        ((if cond4 = 0x0 then OP_BRA
          else if cond4 = 0x1 then OP_BSR
          else OP_BCC + (unat cond4 - 2)),
         no_params[0 := ucast (opcode AND 0xFF)])
      else if hi4 = 0x7 then
        (if opcode AND 0x0100 = 0
         then (OP_MOVEQ, no_params[0 := ucast (opcode AND 0xFF), 1 := reg_dst])
         else (OP_ILLEGAL, no_params))
      else if hi4 = 0x8 then
        ((if opcode AND 0x01F0 = 0x0100 then OP_SBCD
          else if opcode AND 0x01C0 = 0x01C0 then
            (if drop_bit 8 opcode AND 1 \<noteq> 0 then OP_DIVS else OP_DIVU)
          else OP_OR), no_params)
      else if hi4 = 0x9 then
        ((if opcode AND 0xF130 = 0x9100 then OP_SUBX
          else if opcode AND 0x00C0 = 0x00C0 then OP_SUBA
          else OP_SUB), no_params)
      else if hi4 = 0xA then (OP_ILLEGAL, no_params)
      else if hi4 = 0xB then
        ((if opcode AND 0x0100 = 0x0100 then
            (if opcode AND 0x0038 = 0x0008 then OP_CMPM else OP_EOR)
          else
            (if opcode AND 0x00C0 = 0x00C0 then OP_CMPA else OP_CMP)), no_params)
      else if hi4 = 0xC then
        ((if opcode AND 0x01F0 = 0x0100 then OP_ABCD
          else if opcode AND 0xF130 = 0xC100 then OP_EXG
          else if opcode AND 0x01C0 = 0x01C0 then
            (if drop_bit 8 opcode AND 1 \<noteq> 0 then OP_MULS else OP_MULU)
          else OP_AND), no_params)
      else if hi4 = 0xD then
        ((if opcode AND 0xF130 = 0xD100 then OP_ADDX
          else if opcode AND 0x00C0 = 0x00C0 then OP_ADDA
          else OP_ADD), no_params)
      else if hi4 = 0xE then (decode_lineE opcode, no_params)
      else (OP_ILLEGAL, no_params))"

subsection \<open>Branch and control-flow handlers (m68k\_execute2.c)\<close>

abbreviation (input) set_d :: "M68K_CPU \<Rightarrow> nat \<Rightarrow> u32 \<Rightarrow> M68K_CPU" where
  "set_d cpu i x \<equiv> cpu\<lparr> d_reg := (d_reg cpu)[i := x] \<rparr>"

abbreviation (input) set_a :: "M68K_CPU \<Rightarrow> nat \<Rightarrow> u32 \<Rightarrow> M68K_CPU" where
  "set_a cpu i x \<equiv> cpu\<lparr> a_reg := (a_reg cpu)[i := x] \<rparr>"

text \<open>
  The displacement variable of \<^verbatim>\<open>m68k_execute_branches\<close> is an \<^verbatim>\<open>int8_t\<close>: when
  the opcode's low byte is zero the extension word is fetched and assigned to it, which
  keeps the low eight bits of that word.
\<close>

definition branch_displacement ::
  "M68K_CPU \<Rightarrow> u8 list \<Rightarrow> size_t \<Rightarrow> u8 \<Rightarrow> u8 \<times> M68K_CPU" where
  "branch_displacement cpu memory mem_size displacement =
     (if displacement = 0
      then (let (w, cpu1) = m68k_fetch_word cpu memory mem_size in (ucast w, cpu1))
      else (displacement, cpu))"

definition m68k_execute_branches ::
  "M68K_CPU \<Rightarrow> u8 list \<Rightarrow> size_t \<Rightarrow> OpCode \<Rightarrow> u16 \<Rightarrow> M68K_CPU \<times> u8 list" where
  "m68k_execute_branches cpu memory mem_size op opcode =
     (let reg = unat (opcode AND 0x7);
          displacement = (ucast (opcode AND 0xFF) :: u8);
          cond = (ucast (drop_bit 8 opcode AND 0xF) :: u8);
          mode = drop_bit 3 opcode AND 0x7
      in
      if op = OP_BRA then
        (let (disp, cpu1) = branch_displacement cpu memory mem_size displacement;
             cpu2 = cpu1\<lparr> pc := pc cpu1 + scast disp \<rparr>;
             cpu3 = cpu2\<lparr> branch_count := branch_count cpu2 + 1 \<rparr>
         in (cpu3\<lparr> branch_taken := branch_taken cpu3 + 1 \<rparr>, memory))
      else if op = OP_BSR then
        (let (disp, cpu1) = branch_displacement cpu memory mem_size displacement;
             cpu2 = set_a cpu1 7 (a_reg cpu1 ! 7 - 4);
             (cpu3, memory1) =
               m68k_write_memory cpu2 memory mem_size (a_reg cpu2 ! 7) (pc cpu2) SIZE_LONG;
             cpu4 = cpu3\<lparr> pc := pc cpu3 + scast disp \<rparr>;
             cpu5 = cpu4\<lparr> branch_count := branch_count cpu4 + 1 \<rparr>
         in (cpu5\<lparr> branch_taken := branch_taken cpu5 + 1 \<rparr>, memory1))
      else if op \<in> {OP_BEQ, OP_BNE, OP_BCC, OP_BCS, OP_BGE, OP_BLT, OP_BGT, OP_BLE,
                     OP_BHI, OP_BLS, OP_BPL, OP_BMI, OP_BVC, OP_BVS} then
        (let cpu1 = cpu\<lparr> branch_count := branch_count cpu + 1 \<rparr> in
         if m68k_test_condition cpu1 cond then
           (let (disp, cpu2) = branch_displacement cpu1 memory mem_size displacement;
                cpu3 = cpu2\<lparr> pc := pc cpu2 + scast disp \<rparr>
            in (cpu3\<lparr> branch_taken := branch_taken cpu3 + 1 \<rparr>, memory))
         else (cpu1, memory))
      else if op \<in> {OP_DBCC, OP_DBCS, OP_DBEQ, OP_DBNE, OP_DBGE, OP_DBLT, OP_DBGT, OP_DBLE,
                     OP_DBHI, OP_DBLS, OP_DBPL, OP_DBMI, OP_DBVC, OP_DBVS, OP_DBT, OP_DBF} then
        (let (disp16, cpu1) = m68k_fetch_word cpu memory mem_size in
         if \<not> m68k_test_condition cpu1 cond then
           (let counter = (ucast (d_reg cpu1 ! reg AND 0xFFFF) :: u16) - 1;
                cpu2 = set_d cpu1 reg ((d_reg cpu1 ! reg AND 0xFFFF0000) OR ucast counter)
            in if counter \<noteq> 0xFFFF
               then (cpu2\<lparr> pc := pc cpu2 + scast disp16 \<rparr>, memory)
               else (cpu2, memory))
         else (cpu1, memory))
      else if op = OP_JMP then
        (if mode = 2 then (cpu\<lparr> pc := a_reg cpu ! reg \<rparr>, memory)
         else if mode = 7 \<and> reg = 0 then
           (let (w, cpu1) = m68k_fetch_word cpu memory mem_size
            in (cpu1\<lparr> pc := ucast w \<rparr>, memory))
         else if mode = 7 \<and> reg = 1 then
           (let (l, cpu1) = m68k_fetch_long cpu memory mem_size
            in (cpu1\<lparr> pc := l \<rparr>, memory))
         else (cpu, memory))
      else if op = OP_JSR then
        (let (target, cpu1) =
               (if mode = 2 then (a_reg cpu ! reg, cpu)
                else if mode = 7 \<and> reg = 0 then
                  (let (w, c) = m68k_fetch_word cpu memory mem_size in (ucast w, c))
                else if mode = 7 \<and> reg = 1 then m68k_fetch_long cpu memory mem_size
                else (0, cpu));
             cpu2 = set_a cpu1 7 (a_reg cpu1 ! 7 - 4);
             (cpu3, memory1) =
               m68k_write_memory cpu2 memory mem_size (a_reg cpu2 ! 7) (pc cpu2) SIZE_LONG
         in (cpu3\<lparr> pc := target \<rparr>, memory1))
      else if op = OP_RTS then
        (let (return_addr, cpu1) =
               m68k_read_memory cpu memory mem_size (a_reg cpu ! 7) SIZE_LONG;
             cpu2 = set_a cpu1 7 (a_reg cpu1 ! 7 + 4)
         in (cpu2\<lparr> pc := return_addr \<rparr>, memory))
      else if op = OP_RTR then
        (let (ccr32, cpu1) = m68k_read_memory cpu memory mem_size (a_reg cpu ! 7) SIZE_WORD;
             ccr = (ucast ccr32 :: u16);
             cpu2 = set_a cpu1 7 (a_reg cpu1 ! 7 + 2);
             cpu3 = cpu2\<lparr> sr := (sr cpu2 AND 0xFF00) OR (ccr AND 0x00FF) \<rparr>;
             (return_addr, cpu4) =
               m68k_read_memory cpu3 memory mem_size (a_reg cpu3 ! 7) SIZE_LONG;
             cpu5 = set_a cpu4 7 (a_reg cpu4 ! 7 + 4)
         in (cpu5\<lparr> pc := return_addr \<rparr>, memory))
      else if op = OP_RTE then
        (if sr cpu AND SR_SUPERVISOR = 0 then (cpu\<lparr> halted := True \<rparr>, memory)
         else
           (let (sr32, cpu1) = m68k_read_memory cpu memory mem_size (a_reg cpu ! 7) SIZE_WORD;
                cpu2 = cpu1\<lparr> sr := ucast sr32 \<rparr>;
                cpu3 = set_a cpu2 7 (a_reg cpu2 ! 7 + 2);
                (return_addr, cpu4) =
                  m68k_read_memory cpu3 memory mem_size (a_reg cpu3 ! 7) SIZE_LONG;
                cpu5 = set_a cpu4 7 (a_reg cpu4 ! 7 + 4)
            in (cpu5\<lparr> pc := return_addr \<rparr>, memory)))
      else if op \<in> {OP_SCC, OP_SCS, OP_SEQ, OP_SNE, OP_SGE, OP_SLT, OP_SGT, OP_SLE,
                     OP_SHI, OP_SLS, OP_SPL, OP_SMI, OP_SVC, OP_SVS, OP_ST, OP_SF} then
        (if m68k_test_condition cpu cond
         then (set_d cpu reg ((d_reg cpu ! reg AND 0xFFFFFF00) OR 0xFF), memory)
         else (set_d cpu reg (d_reg cpu ! reg AND 0xFFFFFF00), memory))
      else (cpu, memory))"

subsection \<open>Special and system handlers (m68k\_execute2.c)\<close>

definition m68k_execute_special ::
  "M68K_CPU \<Rightarrow> u8 list \<Rightarrow> size_t \<Rightarrow> OpCode \<Rightarrow> u16 \<Rightarrow> M68K_CPU \<times> u8 list" where
  "m68k_execute_special cpu memory mem_size op opcode =
     (let reg = unat (opcode AND 0x7);
          mode = drop_bit 3 opcode AND 0x7;
          reg_dst = unat (drop_bit 9 opcode AND 0x7)
      in
      if op = OP_LEA then
        (if mode = 2 then (set_a cpu reg_dst (a_reg cpu ! reg), memory)
         else if mode = 5 then
           (let (disp, cpu1) = m68k_fetch_word cpu memory mem_size
            in (set_a cpu1 reg_dst (a_reg cpu1 ! reg + scast disp), memory))
         else if mode = 7 \<and> reg = 0 then
           (let (w, cpu1) = m68k_fetch_word cpu memory mem_size
            in (set_a cpu1 reg_dst (ucast w), memory))
         else if mode = 7 \<and> reg = 1 then
           (let (l, cpu1) = m68k_fetch_long cpu memory mem_size
            in (set_a cpu1 reg_dst l, memory))
         else (cpu, memory))
      else if op = OP_PEA then
        (let ea = (if mode = 2 then a_reg cpu ! reg else 0);
             cpu1 = set_a cpu 7 (a_reg cpu ! 7 - 4)
         in m68k_write_memory cpu1 memory mem_size (a_reg cpu1 ! 7) ea SIZE_LONG)
      else if op = OP_LINK then
        (let (disp, cpu1) = m68k_fetch_word cpu memory mem_size;
             cpu2 = set_a cpu1 7 (a_reg cpu1 ! 7 - 4);
             (cpu3, memory1) =
               m68k_write_memory cpu2 memory mem_size (a_reg cpu2 ! 7) (a_reg cpu2 ! reg) SIZE_LONG;
             cpu4 = set_a cpu3 reg (a_reg cpu3 ! 7)
         in (set_a cpu4 7 (a_reg cpu4 ! 7 + scast disp), memory1))
      else if op = OP_UNLK then
        (let cpu1 = set_a cpu 7 (a_reg cpu ! reg);
             (val, cpu2) = m68k_read_memory cpu1 memory mem_size (a_reg cpu1 ! 7) SIZE_LONG;
             cpu3 = set_a cpu2 reg val
         in (set_a cpu3 7 (a_reg cpu3 ! 7 + 4), memory))
      else if op = OP_SWAP then
        (let val = d_reg cpu ! reg;
             cpu1 = set_d cpu reg (push_bit 16 (val AND 0xFFFF) OR (drop_bit 16 val AND 0xFFFF));
             cpu2 = m68k_set_flags cpu1 (d_reg cpu1 ! reg) SIZE_LONG;
             cpu3 = m68k_set_flag cpu2 SR_CARRY False
         in (m68k_set_flag cpu3 SR_OVERFLOW False, memory))
      else if op = OP_EXT then
        (let cpu1 =
               (if opcode AND 0x0040 = 0 then
                  (let byte_val = (ucast (d_reg cpu ! reg AND 0xFF) :: u8)
                   in set_d cpu reg ((d_reg cpu ! reg AND 0xFFFF0000)
                                      OR ucast (scast byte_val :: u16)))
                else
                  (let word_val = (ucast (d_reg cpu ! reg AND 0xFFFF) :: u16)
                   in set_d cpu reg (scast word_val)));
             cpu2 = m68k_set_flags cpu1 (d_reg cpu1 ! reg) SIZE_LONG;
             cpu3 = m68k_set_flag cpu2 SR_CARRY False
         in (m68k_set_flag cpu3 SR_OVERFLOW False, memory))
      else if op = OP_EXG then
        (let reg1 = reg_dst;
             reg2 = reg;
             mode5 = drop_bit 3 opcode AND 0x1F
         in
         if mode5 = 0x08 then
           (let temp = d_reg cpu ! reg1;
                cpu1 = set_d cpu reg1 (d_reg cpu ! reg2)
            in (set_d cpu1 reg2 temp, memory))
         else if mode5 = 0x09 then
           (let temp = a_reg cpu ! reg1;
                cpu1 = set_a cpu reg1 (a_reg cpu ! reg2)
            in (set_a cpu1 reg2 temp, memory))
         else if mode5 = 0x11 then
           (let temp = d_reg cpu ! reg1;
                cpu1 = set_d cpu reg1 (a_reg cpu ! reg2)
            in (set_a cpu1 reg2 temp, memory))
         else (cpu, memory))
      else if op = OP_TRAP then (cpu, memory)
      else if op = OP_TRAPV then
        (if m68k_get_flag cpu SR_OVERFLOW then (cpu\<lparr> halted := True \<rparr>, memory)
         else (cpu, memory))
      else if op = OP_CHK then
        (let data = (ucast (d_reg cpu ! reg_dst AND 0xFFFF) :: u16);
             upper = (ucast (d_reg cpu ! reg AND 0xFFFF) :: u16)
         in if sint data < 0 \<or> sint data > sint upper
            then (cpu\<lparr> halted := True \<rparr>, memory)
            else (cpu, memory))
      else if op = OP_TAS then
        (let val = (ucast (d_reg cpu ! reg AND 0xFF) :: u8);
             cpu1 = m68k_set_flags cpu (ucast val) SIZE_BYTE;
             cpu2 = m68k_set_flag cpu1 SR_CARRY False;
             cpu3 = m68k_set_flag cpu2 SR_OVERFLOW False
         in (set_d cpu3 reg (d_reg cpu3 ! reg OR 0x80), memory))
      else if op = OP_RESET then
        (if sr cpu AND SR_SUPERVISOR \<noteq> 0 then (cpu, memory)
         else (cpu\<lparr> halted := True \<rparr>, memory))
      else if op = OP_STOP then
        (if sr cpu AND SR_SUPERVISOR \<noteq> 0 then
           (let (immediate, cpu1) = m68k_fetch_word cpu memory mem_size;
                cpu2 = cpu1\<lparr> sr := immediate \<rparr>
            in (cpu2\<lparr> halted := True \<rparr>, memory))
         else (cpu\<lparr> halted := True \<rparr>, memory))
      else (cpu, memory))"

subsection \<open>The general handler family (m68k\_execute.c)\<close>

text \<open>
  Three things that \<^verbatim>\<open>m68k_execute_instruction\<close> calls are taken as parameters:
  \<^item> \<^verbatim>\<open>m68k_set_flags_add\<close> and \<^verbatim>\<open>m68k_set_flags_sub\<close>, which
    \<^verbatim>\<open>m68k_cpu.h\<close> declares and no source file defines;
  \<^item> the body of the \<^verbatim>\<open>OP_VCROSS\<close> case, which computes on single-precision
    floating point through pointer casts;
  \<^item> \<^verbatim>\<open>m68k_execute_complete\<close>, declared \<^verbatim>\<open>extern\<close> in
    \<^verbatim>\<open>m68k_execute.c\<close>, whose FPU and vector families compute on floating point.
  Every statement below holds for all values of these parameters.
\<close>

record m68k_env =
  m68k_set_flags_add :: "M68K_CPU \<Rightarrow> u32 \<Rightarrow> u32 \<Rightarrow> u32 \<Rightarrow> OperandSize \<Rightarrow> M68K_CPU"
  m68k_set_flags_sub :: "M68K_CPU \<Rightarrow> u32 \<Rightarrow> u32 \<Rightarrow> u32 \<Rightarrow> OperandSize \<Rightarrow> M68K_CPU"
  m68k_vcross :: "M68K_CPU \<Rightarrow> u16 \<Rightarrow> M68K_CPU"
  m68k_execute_complete ::
    "M68K_CPU \<Rightarrow> u8 list \<Rightarrow> size_t \<Rightarrow> OpCode \<Rightarrow> u16 \<Rightarrow> M68K_CPU \<times> u8 list"

definition get_size :: "u16 \<Rightarrow> OperandSize" where
  "get_size opcode =
     (let size_bits = drop_bit 6 opcode AND 0x3 in
      if size_bits = 0 then SIZE_BYTE
      else if size_bits = 1 then SIZE_WORD
      else if size_bits = 2 then SIZE_LONG
      else SIZE_WORD)"

text \<open>
  C's \<^verbatim>\<open>/\<close> and \<^verbatim>\<open>%\<close> on \<^verbatim>\<open>int\<close> truncate towards zero. The quotient of
  \<open>INT_MIN\<close> by \<open>-1\<close> is not representable: C leaves both operations undefined there,
  and the division instruction of x86 traps. They have no result in that case, nor for
  a zero divisor.
\<close>

definition c_int_div :: "int \<Rightarrow> int \<Rightarrow> int option" where
  "c_int_div x y =
     (if y = 0 \<or> (x = - (2 ^ 31) \<and> y = - 1) then None
      else Some (sgn x * sgn y * (\<bar>x\<bar> div \<bar>y\<bar>)))"

definition c_int_mod :: "int \<Rightarrow> int \<Rightarrow> int option" where
  "c_int_mod x y =
     (if y = 0 \<or> (x = - (2 ^ 31) \<and> y = - 1) then None
      else Some (sgn x * (\<bar>x\<bar> mod \<bar>y\<bar>)))"

text \<open>
  The immediate operand:
  \<^verbatim>\<open>(size == SIZE_LONG) ? m68k_fetch_long(...) : m68k_fetch_word(...)\<close>.
\<close>

definition fetch_immediate ::
  "M68K_CPU \<Rightarrow> u8 list \<Rightarrow> size_t \<Rightarrow> OperandSize \<Rightarrow> u32 \<times> M68K_CPU" where
  "fetch_immediate cpu memory mem_size sz =
     (if sz = SIZE_LONG then m68k_fetch_long cpu memory mem_size
      else (let (w, cpu1) = m68k_fetch_word cpu memory mem_size in (ucast w, cpu1)))"

text \<open>The shift and rotate loop: \<open>n\<close> single-bit steps.\<close>

fun shift_loop :: "OpCode \<Rightarrow> nat \<Rightarrow> u32 \<Rightarrow> M68K_CPU \<Rightarrow> u32 \<times> M68K_CPU" where
  "shift_loop op 0 val cpu = (val, cpu)"
| "shift_loop op (Suc n) val cpu =
     (let left = (op = OP_ASL \<or> op = OP_LSL \<or> op = OP_ROL \<or> op = OP_ROXL);
          carry = (if left then val AND 0x80000000 \<noteq> 0 else val AND 0x1 \<noteq> 0);
          val1 =
            (if left then
               (let x = push_bit 1 val;
                    y = (if op = OP_ROL then x OR (if carry then 1 else 0) else x)
                in if op = OP_ROXL
                   then y OR (if m68k_get_flag cpu SR_EXTEND then 1 else 0) else y)
             else
               (let x = (if op = OP_ASR then signed_drop_bit 1 val else drop_bit 1 val);
                    y = (if op = OP_ROR then x OR (if carry then 0x80000000 else 0) else x)
                in if op = OP_ROXR
                   then y OR (if m68k_get_flag cpu SR_EXTEND then 0x80000000 else 0) else y));
          cpu1 = m68k_set_flag cpu SR_CARRY carry;
          cpu2 = m68k_set_flag cpu1 SR_EXTEND carry
      in shift_loop op n val1 cpu2)"

text \<open>Clearing carry and overflow, as the logic and multiply handlers do after the size-aware flag update.\<close>

definition clear_cv :: "M68K_CPU \<Rightarrow> M68K_CPU" where
  "clear_cv cpu = m68k_set_flag (m68k_set_flag cpu SR_CARRY False) SR_OVERFLOW False"

text \<open>
  The \<^verbatim>\<open>switch\<close> of \<^verbatim>\<open>m68k_execute_instruction\<close>, before the counter is
  incremented. \<open>None\<close> is the signed division without a result.
\<close>

definition execute_switch ::
  "m68k_env \<Rightarrow> M68K_CPU \<Rightarrow> u8 list \<Rightarrow> size_t \<Rightarrow> OpCode \<Rightarrow> u16 \<Rightarrow> (M68K_CPU \<times> u8 list) option" where
  "execute_switch env cpu memory mem_size op opcode =
     (let reg_dst = unat (drop_bit 9 opcode AND 0x7);
          reg_src = unat (opcode AND 0x7);
          sz = get_size opcode;
          quick = (if reg_dst \<noteq> 0 then (of_nat reg_dst :: u32) else 8);
          extend = (if m68k_get_flag cpu SR_EXTEND then (1 :: u32) else 0)
      in
      if op = OP_NOP then Some (cpu, memory)
      else if op = OP_MOVE then
        (let val = d_reg cpu ! reg_src;
             cpu1 = set_d cpu reg_dst val
         in Some (m68k_set_flags cpu1 val sz, memory))
      else if op = OP_MOVEA then Some (set_a cpu reg_dst (d_reg cpu ! reg_src), memory)
      else if op = OP_MOVEQ then
        (let immediate = (ucast (opcode AND 0xFF) :: u8);
             cpu1 = set_d cpu reg_dst (scast immediate)
         in Some (m68k_set_flags cpu1 (d_reg cpu1 ! reg_dst) SIZE_LONG, memory))
      else if op = OP_ADD then
        (let src = d_reg cpu ! reg_src;
             dst = d_reg cpu ! reg_dst;
             result = dst + src;
             cpu1 = set_d cpu reg_dst result
         in Some (m68k_set_flags_add env cpu1 src dst result sz, memory))
      else if op = OP_ADDA then
        Some (set_a cpu reg_dst (a_reg cpu ! reg_dst + d_reg cpu ! reg_src), memory)
      else if op = OP_ADDI then
        (let (immediate, cpu1) = fetch_immediate cpu memory mem_size sz;
             dst = d_reg cpu1 ! reg_dst;
             result = dst + immediate;
             cpu2 = set_d cpu1 reg_dst result
         in Some (m68k_set_flags_add env cpu2 immediate dst result sz, memory))
      else if op = OP_ADDQ then
        (let dst = d_reg cpu ! reg_src;
             result = dst + quick;
             cpu1 = set_d cpu reg_src result
         in Some (m68k_set_flags_add env cpu1 quick dst result sz, memory))
      else if op = OP_ADDX then
        (let src = d_reg cpu ! reg_src;
             dst = d_reg cpu ! reg_dst;
             result = dst + src + extend;
             cpu1 = set_d cpu reg_dst result
         in Some (m68k_set_flags_add env cpu1 (src + extend) dst result sz, memory))
      else if op = OP_SUB then
        (let src = d_reg cpu ! reg_src;
             dst = d_reg cpu ! reg_dst;
             result = dst - src;
             cpu1 = set_d cpu reg_dst result
         in Some (m68k_set_flags_sub env cpu1 src dst result sz, memory))
      else if op = OP_SUBA then
        Some (set_a cpu reg_dst (a_reg cpu ! reg_dst - d_reg cpu ! reg_src), memory)
      else if op = OP_SUBI then
        (let (immediate, cpu1) = fetch_immediate cpu memory mem_size sz;
             dst = d_reg cpu1 ! reg_dst;
             result = dst - immediate;
             cpu2 = set_d cpu1 reg_dst result
         in Some (m68k_set_flags_sub env cpu2 immediate dst result sz, memory))
      else if op = OP_SUBQ then
        (let dst = d_reg cpu ! reg_src;
             result = dst - quick;
             cpu1 = set_d cpu reg_src result
         in Some (m68k_set_flags_sub env cpu1 quick dst result sz, memory))
      else if op = OP_SUBX then
        (let src = d_reg cpu ! reg_src;
             dst = d_reg cpu ! reg_dst;
             result = dst - src - extend;
             cpu1 = set_d cpu reg_dst result
         in Some (m68k_set_flags_sub env cpu1 (src + extend) dst result sz, memory))
      else if op = OP_CMP then
        (let src = d_reg cpu ! reg_src;
             dst = d_reg cpu ! reg_dst
         in Some (m68k_set_flags_sub env cpu src dst (dst - src) sz, memory))
      else if op = OP_CMPA then
        (let src = d_reg cpu ! reg_src;
             dst = a_reg cpu ! reg_dst
         in Some (m68k_set_flags_sub env cpu src dst (dst - src) SIZE_LONG, memory))
      else if op = OP_CMPI then
        (let (immediate, cpu1) = fetch_immediate cpu memory mem_size sz;
             dst = d_reg cpu1 ! reg_dst
         in Some (m68k_set_flags_sub env cpu1 immediate dst (dst - immediate) sz, memory))
      else if op = OP_AND then
        (let result = d_reg cpu ! reg_dst AND d_reg cpu ! reg_src;
             cpu1 = set_d cpu reg_dst result
         in Some (clear_cv (m68k_set_flags cpu1 result sz), memory))
      else if op = OP_ANDI then
        (let (immediate, cpu1) = fetch_immediate cpu memory mem_size sz;
             result = d_reg cpu1 ! reg_dst AND immediate;
             cpu2 = set_d cpu1 reg_dst result
         in Some (clear_cv (m68k_set_flags cpu2 result sz), memory))
      else if op = OP_OR then
        (let result = d_reg cpu ! reg_dst OR d_reg cpu ! reg_src;
             cpu1 = set_d cpu reg_dst result
         in Some (clear_cv (m68k_set_flags cpu1 result sz), memory))
      else if op = OP_ORI then
        (let (immediate, cpu1) = fetch_immediate cpu memory mem_size sz;
             result = d_reg cpu1 ! reg_dst OR immediate;
             cpu2 = set_d cpu1 reg_dst result
         in Some (clear_cv (m68k_set_flags cpu2 result sz), memory))
      else if op = OP_EOR then
        (let result = d_reg cpu ! reg_dst XOR d_reg cpu ! reg_src;
             cpu1 = set_d cpu reg_dst result
         in Some (clear_cv (m68k_set_flags cpu1 result sz), memory))
      else if op = OP_EORI then
        (let (immediate, cpu1) = fetch_immediate cpu memory mem_size sz;
             result = d_reg cpu1 ! reg_dst XOR immediate;
             cpu2 = set_d cpu1 reg_dst result
         in Some (clear_cv (m68k_set_flags cpu2 result sz), memory))
      else if op = OP_NOT then
        (let result = NOT (d_reg cpu ! reg_dst);
             cpu1 = set_d cpu reg_dst result
         in Some (clear_cv (m68k_set_flags cpu1 result sz), memory))
      else if op = OP_NEG then
        (let dst = d_reg cpu ! reg_dst;
             result = - dst;
             cpu1 = set_d cpu reg_dst result
         in Some (m68k_set_flags_sub env cpu1 dst 0 result sz, memory))
      else if op = OP_NEGX then
        (let dst = d_reg cpu ! reg_dst;
             result = - dst - extend;
             cpu1 = set_d cpu reg_dst result
         in Some (m68k_set_flags_sub env cpu1 (dst + extend) 0 result sz, memory))
      else if op = OP_CLR then
        (let cpu1 = set_d cpu reg_dst 0;
             cpu2 = m68k_set_flag cpu1 SR_NEGATIVE False;
             cpu3 = m68k_set_flag cpu2 SR_ZERO True;
             cpu4 = m68k_set_flag cpu3 SR_OVERFLOW False
         in Some (m68k_set_flag cpu4 SR_CARRY False, memory))
      else if op = OP_TST then
        Some (clear_cv (m68k_set_flags cpu (d_reg cpu ! reg_dst) sz), memory)
      else if op = OP_MULU then
        (let src = (ucast (d_reg cpu ! reg_src AND 0xFFFF) :: u16);
             dst = (ucast (d_reg cpu ! reg_dst AND 0xFFFF) :: u16);
             result = (ucast src :: u32) * ucast dst;
             cpu1 = set_d cpu reg_dst result;
             cpu2 = clear_cv (m68k_set_flags cpu1 result SIZE_LONG)
         in Some (cpu2\<lparr> cycle_count := cycle_count cpu2 + 70 \<rparr>, memory))
      else if op = OP_MULS then
        (let src = (ucast (d_reg cpu ! reg_src AND 0xFFFF) :: u16);
             dst = (ucast (d_reg cpu ! reg_dst AND 0xFFFF) :: u16);
             result = (scast src :: u32) * scast dst;
             cpu1 = set_d cpu reg_dst result;
             cpu2 = clear_cv (m68k_set_flags cpu1 result SIZE_LONG)
         in Some (cpu2\<lparr> cycle_count := cycle_count cpu2 + 70 \<rparr>, memory))
      else if op = OP_DIVU then
        (let src = (ucast (d_reg cpu ! reg_src AND 0xFFFF) :: u16);
             dst = d_reg cpu ! reg_dst;
             cpu1 =
               (if src = 0 then cpu\<lparr> halted := True \<rparr>
                else
                  (let quotient = (ucast (dst div ucast src) :: u16);
                       remainder = (ucast (dst mod ucast src) :: u16);
                       c1 = set_d cpu reg_dst (push_bit 16 (ucast remainder) OR ucast quotient)
                   in clear_cv (m68k_set_flags c1 (ucast quotient) SIZE_WORD)))
         in Some (cpu1\<lparr> cycle_count := cycle_count cpu1 + 140 \<rparr>, memory))
      else if op = OP_DIVS then
        (let src = (ucast (d_reg cpu ! reg_src AND 0xFFFF) :: u16);
             dst = d_reg cpu ! reg_dst
         in
         if src = 0 then
           (let cpu1 = cpu\<lparr> halted := True \<rparr>
            in Some (cpu1\<lparr> cycle_count := cycle_count cpu1 + 158 \<rparr>, memory))
         else
           (case (c_int_div (sint dst) (sint src), c_int_mod (sint dst) (sint src)) of
              (Some q, Some r) \<Rightarrow>
                (let quotient = (word_of_int q :: u16);
                     remainder = (word_of_int r :: u16);
                     c1 = set_d cpu reg_dst (push_bit 16 (ucast remainder) OR ucast quotient);
                     c2 = clear_cv (m68k_set_flags c1 (scast quotient) SIZE_WORD)
                 in Some (c2\<lparr> cycle_count := cycle_count c2 + 158 \<rparr>, memory))
            | _ \<Rightarrow> None))
      else if op \<in> {OP_ASL, OP_ASR, OP_LSL, OP_LSR, OP_ROL, OP_ROR, OP_ROXL, OP_ROXR} then
        (let count = (if reg_dst = 0 then 8 else reg_dst);
             (val, cpu1) = shift_loop op count (d_reg cpu ! reg_dst) cpu;
             cpu2 = set_d cpu1 reg_dst val
         in Some (m68k_set_flags cpu2 val sz, memory))
      else if op = OP_VCROSS then
        (if \<not> apollo_mode cpu then Some (cpu, memory)
         else Some (m68k_vcross env cpu opcode, memory))
      else Some (m68k_execute_complete env cpu memory mem_size op opcode))"

definition m68k_execute_instruction ::
  "m68k_env \<Rightarrow> M68K_CPU \<Rightarrow> u8 list \<Rightarrow> size_t \<Rightarrow> OpCode \<Rightarrow> u16 \<Rightarrow> (M68K_CPU \<times> u8 list) option" where
  "m68k_execute_instruction env cpu memory mem_size op opcode =
     (case execute_switch env cpu memory mem_size op opcode of
        None \<Rightarrow> None
      | Some (cpu1, memory1) \<Rightarrow>
          Some (cpu1\<lparr> instruction_count := instruction_count cpu1 + 1 \<rparr>, memory1))"

subsection \<open>The step operation (m68k\_execute2.c)\<close>

definition m68k_execute_cycle ::
  "m68k_env \<Rightarrow> M68K_CPU \<Rightarrow> u8 list \<Rightarrow> size_t \<Rightarrow> (M68K_CPU \<times> u8 list) option" where
  "m68k_execute_cycle env cpu memory mem_size =
     (if halted cpu then Some (cpu, memory)
      else
        let cpu1 = cpu\<lparr> bus_active := False \<rparr>;
            (hit, cpu2) = m68k_check_breakpoint cpu1 (pc cpu1)
        in
        if hit then Some (cpu2\<lparr> halted := True \<rparr>, memory)
        else
          let (opcode, cpu3) = m68k_fetch_word cpu2 memory mem_size;
              (op, params) = m68k_decode_instruction cpu3 opcode
          in
          if op \<ge> OP_BRA \<and> op \<le> OP_DBF
          then Some (m68k_execute_branches cpu3 memory mem_size op opcode)
          else if op \<ge> OP_LEA \<and> op \<le> OP_STOP
          then Some (m68k_execute_special cpu3 memory mem_size op opcode)
          else m68k_execute_instruction env cpu3 memory mem_size op opcode)"

subsection \<open>Effective-address resolution (m68k\_addressing.c)\<close>

text \<open>
  \<^verbatim>\<open>m68k_get_ea_value\<close> returns the operand and the updated processor state;
  \<^verbatim>\<open>m68k_set_ea_value\<close> returns the updated state and memory. The mode and register
  arguments are bytes, as in the source.
\<close>

definition m68k_get_ea_value ::
  "M68K_CPU \<Rightarrow> u8 list \<Rightarrow> size_t \<Rightarrow> u8 \<Rightarrow> u8 \<Rightarrow> OperandSize \<Rightarrow> u32 \<times> M68K_CPU" where
  "m68k_get_ea_value cpu memory mem_size mode reg sz =
     (let r = unat reg in
      if mode = 0 then (d_reg cpu ! r, cpu)
      else if mode = 1 then (a_reg cpu ! r, cpu)
      else if mode = 2 then
        (let ea = a_reg cpu ! r in m68k_read_memory cpu memory mem_size ea sz)
      else if mode = 3 then
        (let ea = a_reg cpu ! r;
             cpu1 = set_a cpu r (a_reg cpu ! r + size_val sz)
         in m68k_read_memory cpu1 memory mem_size ea sz)
      else if mode = 4 then
        (let cpu1 = set_a cpu r (a_reg cpu ! r - size_val sz);
             ea = a_reg cpu1 ! r
         in m68k_read_memory cpu1 memory mem_size ea sz)
      else if mode = 5 then
        (let (disp, cpu1) = m68k_fetch_word cpu memory mem_size;
             ea = a_reg cpu1 ! r + scast disp
         in m68k_read_memory cpu1 memory mem_size ea sz)
      else if mode = 6 then
        (let (ext, cpu1) = m68k_fetch_word cpu memory mem_size;
             disp = (ucast (ext AND 0xFF) :: u8);
             idx_reg = unat (drop_bit 12 ext AND 0x7);
             is_addr = (drop_bit 15 ext AND 0x1 \<noteq> 0);
             index0 = (if is_addr then a_reg cpu1 ! idx_reg else d_reg cpu1 ! idx_reg);
             index = (if ext AND 0x0800 = 0 then scast (ucast index0 :: u16) else index0);
             ea = a_reg cpu1 ! r + scast disp + index
         in m68k_read_memory cpu1 memory mem_size ea sz)
      else if mode = 7 then
        (if reg = 0 then
           (let (w, cpu1) = m68k_fetch_word cpu memory mem_size;
                ea = scast w
            in m68k_read_memory cpu1 memory mem_size ea sz)
         else if reg = 1 then
           (let (ea, cpu1) = m68k_fetch_long cpu memory mem_size
            in m68k_read_memory cpu1 memory mem_size ea sz)
         else if reg = 2 then
           (let pc0 = pc cpu;
                (disp, cpu1) = m68k_fetch_word cpu memory mem_size;
                ea = pc0 + scast disp
            in m68k_read_memory cpu1 memory mem_size ea sz)
         else if reg = 4 then
           (if sz = SIZE_LONG then m68k_fetch_long cpu memory mem_size
            else (let (w, cpu1) = m68k_fetch_word cpu memory mem_size in (ucast w, cpu1)))
         else (0, cpu))
      else (0, cpu))"

definition m68k_set_ea_value ::
  "M68K_CPU \<Rightarrow> u8 list \<Rightarrow> size_t \<Rightarrow> u8 \<Rightarrow> u8 \<Rightarrow> u32 \<Rightarrow> OperandSize \<Rightarrow> M68K_CPU \<times> u8 list" where
  "m68k_set_ea_value cpu memory mem_size mode reg val sz =
     (let r = unat reg in
      if mode = 0 then
        (if sz = SIZE_BYTE then
           (set_d cpu r ((d_reg cpu ! r AND 0xFFFFFF00) OR (val AND 0xFF)), memory)
         else if sz = SIZE_WORD then
           (set_d cpu r ((d_reg cpu ! r AND 0xFFFF0000) OR (val AND 0xFFFF)), memory)
         else (set_d cpu r val, memory))
      else if mode = 1 then (set_a cpu r val, memory)
      else if mode = 2 then
        (let ea = a_reg cpu ! r in m68k_write_memory cpu memory mem_size ea val sz)
      else if mode = 3 then
        (let ea = a_reg cpu ! r;
             (cpu1, memory1) = m68k_write_memory cpu memory mem_size ea val sz
         in (set_a cpu1 r (a_reg cpu1 ! r + size_val sz), memory1))
      else if mode = 4 then
        (let cpu1 = set_a cpu r (a_reg cpu ! r - size_val sz);
             ea = a_reg cpu1 ! r
         in m68k_write_memory cpu1 memory mem_size ea val sz)
      else if mode = 5 then
        (let (disp, cpu1) = m68k_fetch_word cpu memory mem_size;
             ea = a_reg cpu1 ! r + scast disp
         in m68k_write_memory cpu1 memory mem_size ea val sz)
      else if mode = 7 then
        (if reg = 0 then
           (let (w, cpu1) = m68k_fetch_word cpu memory mem_size;
                ea = scast w
            in m68k_write_memory cpu1 memory mem_size ea val sz)
         else if reg = 1 then
           (let (ea, cpu1) = m68k_fetch_long cpu memory mem_size
            in m68k_write_memory cpu1 memory mem_size ea val sz)
         else (cpu, memory))
      else (cpu, memory))"

subsection \<open>BCD arithmetic (m68k\_addressing.c)\<close>

text \<open>
  The digit sums of \<^verbatim>\<open>OP_ABCD\<close> are \<^verbatim>\<open>uint8_t\<close>; the digit differences of
  \<^verbatim>\<open>OP_SBCD\<close> and \<^verbatim>\<open>OP_NBCD\<close> are \<^verbatim>\<open>int16_t\<close>, read as two's
  complement by \<open>sint\<close>.
\<close>

definition bcd_store :: "M68K_CPU \<Rightarrow> nat \<Rightarrow> u8 \<Rightarrow> bool \<Rightarrow> M68K_CPU" where
  "bcd_store cpu reg_dst result carry =
     (let cpu1 = set_d cpu reg_dst ((d_reg cpu ! reg_dst AND 0xFFFFFF00) OR ucast result);
          cpu2 = m68k_set_flag cpu1 SR_CARRY carry;
          cpu3 = m68k_set_flag cpu2 SR_EXTEND carry
      in if result \<noteq> 0 then m68k_set_flag cpu3 SR_ZERO False else cpu3)"

definition m68k_execute_bcd :: "M68K_CPU \<Rightarrow> OpCode \<Rightarrow> u16 \<Rightarrow> M68K_CPU" where
  "m68k_execute_bcd cpu op opcode =
     (let reg_src = unat (opcode AND 0x7);
          reg_dst = unat (drop_bit 9 opcode AND 0x7);
          src = (ucast (d_reg cpu ! reg_src AND 0xFF) :: u8);
          dst = (ucast (d_reg cpu ! reg_dst AND 0xFF) :: u8);
          extend = (if m68k_get_flag cpu SR_EXTEND then (1 :: u8) else 0)
      in
      if op = OP_ABCD then
        (let low0 = (dst AND 0xF) + (src AND 0xF) + extend;
             (low, carry_low) = (if low0 > 9 then (low0 + 6, 1) else (low0, 0));
             high0 = (drop_bit 4 dst AND 0xF) + (drop_bit 4 src AND 0xF) + carry_low;
             (high, carry_high) = (if high0 > 9 then (high0 + 6, 1 :: u8) else (high0, 0));
             result = push_bit 4 (high AND 0xF) OR (low AND 0xF)
         in bcd_store cpu reg_dst result (carry_high \<noteq> 0))
      else if op = OP_SBCD then
        (let low0 = (ucast (dst AND 0xF) :: u16) - ucast (src AND 0xF) - ucast extend;
             (low, borrow_low) = (if sint low0 < 0 then (low0 - 6, 1 :: u16) else (low0, 0));
             high0 = ucast (drop_bit 4 dst AND 0xF) - ucast (drop_bit 4 src AND 0xF) - borrow_low;
             (high, borrow_high) = (if sint high0 < 0 then (high0 - 6, 1 :: u8) else (high0, 0));
             result = (ucast (push_bit 4 (high AND 0xF) OR (low AND 0xF)) :: u8)
         in bcd_store cpu reg_dst result (borrow_high \<noteq> 0))
      else if op = OP_NBCD then
        (let low0 = (0 :: u16) - ucast (dst AND 0xF) - ucast extend;
             (low, borrow_low) = (if sint low0 < 0 then (low0 - 6, 1 :: u16) else (low0, 0));
             high0 = 0 - ucast (drop_bit 4 dst AND 0xF) - borrow_low;
             (high, borrow_high) = (if sint high0 < 0 then (high0 - 6, 1 :: u8) else (high0, 0));
             result = (ucast (push_bit 4 (high AND 0xF) OR (low AND 0xF)) :: u8)
         in bcd_store cpu reg_dst result (borrow_high \<noteq> 0))
      else cpu)"

section \<open>Drivers and concrete inputs\<close>

text \<open>
  The caller's loop (\<^verbatim>\<open>main.c\<close>): \<open>n\<close> calls of the step operation on the same
  processor and memory.
\<close>

fun run_cycles ::
  "m68k_env \<Rightarrow> nat \<Rightarrow> M68K_CPU \<Rightarrow> u8 list \<Rightarrow> size_t \<Rightarrow> (M68K_CPU \<times> u8 list) option" where
  "run_cycles env 0 cpu memory mem_size = Some (cpu, memory)"
| "run_cycles env (Suc n) cpu memory mem_size =
     (case m68k_execute_cycle env cpu memory mem_size of
        None \<Rightarrow> None
      | Some (cpu1, memory1) \<Rightarrow> run_cycles env n cpu1 memory1 mem_size)"

text \<open>One instance of the parameters, for evaluating the model on concrete inputs.\<close>

definition env0 :: m68k_env where
  "env0 = \<lparr> m68k_set_flags_add = (\<lambda>c _ _ _ _. c), m68k_set_flags_sub = (\<lambda>c _ _ _ _. c),
            m68k_vcross = (\<lambda>c _. c), m68k_execute_complete = (\<lambda>c m _ _ _. (c, m)) \<rparr>"

definition zero_memory :: "u8 list" where
  "zero_memory = replicate 128 0"

text \<open>
  \<^verbatim>\<open>MOVEQ #1,D0; MOVEQ #2,D1; MOVEQ #3,D2; ADD.W D0,D1; SUB.W D0,D2; CMP.W D0,D2;
  BEQ.S +2; ADD.W D0,D2\<close> at address 0 of a 128-byte memory.
\<close>

definition scenario_program :: "u8 list" where
  "scenario_program =
     [0x70, 0x01, 0x72, 0x02, 0x74, 0x03, 0xD2, 0x40,
      0x94, 0x40, 0xB4, 0x40, 0x67, 0x02, 0xD4, 0x40] @ replicate 112 0"

text \<open>\<^verbatim>\<open>BRA.S +2\<close>, \<^verbatim>\<open>LEA (A0),A1\<close>, \<^verbatim>\<open>MOVEQ #1,D0\<close> and \<^verbatim>\<open>DIVS D0,D1\<close>, each at address 0.\<close>

definition bra_program :: "u8 list" where
  "bra_program = [0x60, 0x02] @ replicate 126 0"

definition lea_program :: "u8 list" where
  "lea_program = [0x43, 0xD0] @ replicate 126 0"

definition moveq_program :: "u8 list" where
  "moveq_program = [0x70, 0x01] @ replicate 126 0"

definition divs_program :: "u8 list" where
  "divs_program = [0x83, 0xC0] @ replicate 126 0"

definition divs_overflow_cpu :: M68K_CPU where
  "divs_overflow_cpu = m68k_init\<lparr> d_reg := [0x0000FFFF, 0x80000000, 0, 0, 0, 0, 0, 0] \<rparr>"

definition divs_zero_cpu :: M68K_CPU where
  "divs_zero_cpu = m68k_init\<lparr> d_reg := [0, 100, 0, 0, 0, 0, 0, 0] \<rparr>"

definition move_example_cpu :: M68K_CPU where
  "move_example_cpu = m68k_init\<lparr> d_reg := [0x12345600, 0xFFFFFFFF, 0, 0, 0, 0, 0, 0] \<rparr>"

text \<open>\<^verbatim>\<open>MOVE.L D0,D1\<close> and \<^verbatim>\<open>MOVE.W D0,D1\<close> at address 0.\<close>

definition move_long_program :: "u8 list" where
  "move_long_program = [0x22, 0x00] @ replicate 126 0"

definition move_word_program :: "u8 list" where
  "move_word_program = [0x32, 0x00] @ replicate 126 0"

definition move_word_cpu :: M68K_CPU where
  "move_word_cpu = m68k_init\<lparr> d_reg := [0x00018000, 0xFFFFFFFF, 0, 0, 0, 0, 0, 0] \<rparr>"

text \<open>D0 = 9, D1 = 1, zero flag set, extend flag clear.\<close>

definition abcd_example_cpu :: M68K_CPU where
  "abcd_example_cpu = m68k_init\<lparr> d_reg := [0x09, 0x01, 0, 0, 0, 0, 0, 0], sr := 0x2004 \<rparr>"

definition stack_example_cpu :: M68K_CPU where
  "stack_example_cpu = m68k_init\<lparr> a_reg := [0, 0, 0, 0, 0, 0, 0, 0x40] \<rparr>"

definition single_breakpoint_cpu :: M68K_CPU where
  "single_breakpoint_cpu = m68k_add_breakpoint m68k_init 0"

definition duplicate_breakpoints_cpu :: M68K_CPU where
  "duplicate_breakpoints_cpu = m68k_add_breakpoint (m68k_add_breakpoint m68k_init 0) 0"

section \<open>Auxiliary facts\<close>

subsection \<open>Words\<close>

lemma replicate_8: "replicate 8 x = [x, x, x, x, x, x, x, x]"
  by (simp add: eval_nat_numeral)

lemma and7_eq_take_bit: "(w :: 'a::len word) AND 7 = take_bit 3 w"
proof -
  have "(7 :: 'a word) = mask 3" by (simp add: mask_eq_exp_minus_1)
  then show ?thesis by (simp add: take_bit_eq_mask)
qed

lemma unat_and7_less: "unat ((w :: 'a::len word) AND 7) < 8"
proof -
  have "unat (take_bit 3 w) = take_bit 3 (unat w)" by (simp add: unsigned_take_bit_eq)
  also have "\<dots> < 2 ^ 3" by (rule take_bit_nat_less_exp)
  finally show ?thesis by (simp add: and7_eq_take_bit)
qed

lemma unat_ucast_32_64: "unat (ucast (x :: u32) :: size_t) = unat x"
proof -
  have "unat x < 2 ^ 32" using unsigned_less [of x, where 'a = nat] by simp
  then have "unat x < 2 ^ 64" by simp
  then show ?thesis by (simp add: unsigned_ucast_eq take_bit_nat_eq_self)
qed

lemma ucast_u32_below_size_max: "\<not> (0 - 1 :: size_t) \<le> ucast (x :: u32)"
proof -
  have "unat x < 2 ^ 32" using unsigned_less [of x, where 'a = nat] by simp
  moreover have "unat (- 1 :: size_t) = 2 ^ 64 - 1"
    by (simp add: unsigned_minus_1_eq_mask mask_eq_exp_minus_1)
  ultimately show ?thesis by (simp add: word_le_nat_alt unat_ucast_32_64)
qed

lemma word_pred_le: "(x :: 'a::len word) \<noteq> 0 \<Longrightarrow> x \<le> y \<Longrightarrow> x - 1 \<le> y"
  by unat_arith

lemma ucast8_eq_0_iff: "((ucast (r :: u32) :: u8) = 0) = (take_bit 8 r = 0)"
  by (simp add: word_eq_iff_unsigned [where ?'a = nat] unsigned_ucast_eq unsigned_take_bit_eq)

lemma ucast16_eq_0_iff: "((ucast (r :: u32) :: u16) = 0) = (take_bit 16 r = 0)"
  by (simp add: word_eq_iff_unsigned [where ?'a = nat] unsigned_ucast_eq unsigned_take_bit_eq)

lemma sint_ucast8_neg_iff: "(sint (ucast (r :: u32) :: u8) < 0) = bit r 7"
  using bit_last_iff [of "ucast r :: u8"] by (simp add: bit_ucast_iff)

lemma sint_ucast16_neg_iff: "(sint (ucast (r :: u32) :: u16) < 0) = bit r 15"
  using bit_last_iff [of "ucast r :: u16"] by (simp add: bit_ucast_iff)

lemma sint_neg_iff: "(sint (r :: u32) < 0) = bit r 31"
  using bit_last_iff [of r] by simp

lemma low_byte_16: "((x AND 0xFFFFFF00) OR 0x10) AND 0xFF = (0x10 :: u32)"
  by (simp add: bit.conj_disj_distrib2 and.assoc)

lemma high_bytes_16: "((x AND 0xFFFFFF00) OR 0x10) AND 0xFFFFFF00 = x AND (0xFFFFFF00 :: u32)"
  by (simp add: bit.conj_disj_distrib2 and.assoc)

subsection \<open>Flags\<close>

lemma sr_set_flag: "sr (m68k_set_flag cpu f b) = (if b then sr cpu OR f else sr cpu AND NOT f)"
  by (simp add: m68k_set_flag_def)

lemmas flag_bit_simps =
  m68k_get_flag_def sr_set_flag bit.conj_disj_distrib2 and.assoc or_eq_0_iff

lemma set_flag_fields [simp]:
  "d_reg (m68k_set_flag cpu f b) = d_reg cpu"
  "a_reg (m68k_set_flag cpu f b) = a_reg cpu"
  "pc (m68k_set_flag cpu f b) = pc cpu"
  "halted (m68k_set_flag cpu f b) = halted cpu"
  "instruction_count (m68k_set_flag cpu f b) = instruction_count cpu"
  "cycle_count (m68k_set_flag cpu f b) = cycle_count cpu"
  by (simp_all add: m68k_set_flag_def)

lemma set_flags_fields [simp]:
  "d_reg (m68k_set_flags cpu r sz) = d_reg cpu"
  "a_reg (m68k_set_flags cpu r sz) = a_reg cpu"
  "pc (m68k_set_flags cpu r sz) = pc cpu"
  "halted (m68k_set_flags cpu r sz) = halted cpu"
  "instruction_count (m68k_set_flags cpu r sz) = instruction_count cpu"
  "cycle_count (m68k_set_flags cpu r sz) = cycle_count cpu"
  by (simp_all add: m68k_set_flags_def Let_def)

text \<open>Setting a flag and reading it back: the four condition flags are independent bits.\<close>

lemma flags_read_back:
  "m68k_get_flag (m68k_set_flag cpu SR_CARRY b) SR_CARRY = b"
  "m68k_get_flag (m68k_set_flag cpu SR_OVERFLOW b) SR_OVERFLOW = b"
  "m68k_get_flag (m68k_set_flag cpu SR_ZERO b) SR_ZERO = b"
  "m68k_get_flag (m68k_set_flag cpu SR_NEGATIVE b) SR_NEGATIVE = b"
  "m68k_get_flag (m68k_set_flag cpu SR_CARRY b) SR_ZERO = m68k_get_flag cpu SR_ZERO"
  "m68k_get_flag (m68k_set_flag cpu SR_ZERO b) SR_CARRY = m68k_get_flag cpu SR_CARRY"
  "m68k_get_flag (m68k_set_flag cpu SR_NEGATIVE b) SR_OVERFLOW = m68k_get_flag cpu SR_OVERFLOW"
  "m68k_get_flag (m68k_set_flag cpu SR_OVERFLOW b) SR_NEGATIVE = m68k_get_flag cpu SR_NEGATIVE"
  by (simp_all add: flag_bit_simps)

lemma set_flags_zero:
  "m68k_get_flag (m68k_set_flags cpu r sz) SR_ZERO =
     (case sz of SIZE_BYTE \<Rightarrow> take_bit 8 r = 0 | SIZE_WORD \<Rightarrow> take_bit 16 r = 0
               | SIZE_LONG \<Rightarrow> r = 0 | _ \<Rightarrow> False)"
  by (cases sz)
     (simp_all add: m68k_set_flags_def Let_def flag_bit_simps ucast8_eq_0_iff ucast16_eq_0_iff)

lemma set_flags_negative:
  "m68k_get_flag (m68k_set_flags cpu r sz) SR_NEGATIVE =
     (case sz of SIZE_BYTE \<Rightarrow> bit r 7 | SIZE_WORD \<Rightarrow> bit r 15
               | SIZE_LONG \<Rightarrow> bit r 31 | _ \<Rightarrow> False)"
  by (cases sz)
     (simp_all add: m68k_set_flags_def Let_def flag_bit_simps
        sint_ucast8_neg_iff sint_ucast16_neg_iff sint_neg_iff)

subsection \<open>Unfolding the step operation on a concrete input\<close>

lemmas step_defs =
  m68k_execute_cycle_def m68k_check_breakpoint_def check_breakpoint_from.simps
  m68k_fetch_word_def m68k_decode_instruction_def decode_line0_def decode_line4_def
  decode_lineE_def m68k_execute_branches_def m68k_execute_special_def
  m68k_execute_instruction_def execute_switch_def m68k_set_flags_def m68k_set_flag_def
  m68k_get_flag_def m68k_test_condition_def branch_displacement_def get_size_def
  no_params_def Let_def

section \<open>The claims\<close>

subsection \<open>C6: the condition test follows the 68000 truth table\<close>

text \<open>
  Claim C6. For each of the 16 condition codes and every value of the status word (hence
  each of the 16 combinations of the N, Z, V and C flags), \<^verbatim>\<open>m68k_test_condition\<close>
  returns the value of the standard table: T true, F false, HI = not C and not Z,
  LS = C or Z, CC = not C, CS = C, NE = not Z, EQ = Z, VC = not V, VS = V, PL = not N,
  MI = N, GE = (N equals V), LT = (N differs from V), GT = not Z and (N equals V),
  LE = Z or (N differs from V).
\<close>

theorem test_condition_truth_table:
  "m68k_test_condition cpu 0x0 = True
   \<and> m68k_test_condition cpu 0x1 = False
   \<and> m68k_test_condition cpu 0x2
       = (\<not> m68k_get_flag cpu SR_CARRY \<and> \<not> m68k_get_flag cpu SR_ZERO)
   \<and> m68k_test_condition cpu 0x3
       = (m68k_get_flag cpu SR_CARRY \<or> m68k_get_flag cpu SR_ZERO)
   \<and> m68k_test_condition cpu 0x4 = (\<not> m68k_get_flag cpu SR_CARRY)
   \<and> m68k_test_condition cpu 0x5 = m68k_get_flag cpu SR_CARRY
   \<and> m68k_test_condition cpu 0x6 = (\<not> m68k_get_flag cpu SR_ZERO)
   \<and> m68k_test_condition cpu 0x7 = m68k_get_flag cpu SR_ZERO
   \<and> m68k_test_condition cpu 0x8 = (\<not> m68k_get_flag cpu SR_OVERFLOW)
   \<and> m68k_test_condition cpu 0x9 = m68k_get_flag cpu SR_OVERFLOW
   \<and> m68k_test_condition cpu 0xA = (\<not> m68k_get_flag cpu SR_NEGATIVE)
   \<and> m68k_test_condition cpu 0xB = m68k_get_flag cpu SR_NEGATIVE
   \<and> m68k_test_condition cpu 0xC
       = (m68k_get_flag cpu SR_NEGATIVE = m68k_get_flag cpu SR_OVERFLOW)
   \<and> m68k_test_condition cpu 0xD
       = (m68k_get_flag cpu SR_NEGATIVE \<noteq> m68k_get_flag cpu SR_OVERFLOW)
   \<and> m68k_test_condition cpu 0xE
       = (\<not> m68k_get_flag cpu SR_ZERO
          \<and> m68k_get_flag cpu SR_NEGATIVE = m68k_get_flag cpu SR_OVERFLOW)
   \<and> m68k_test_condition cpu 0xF
       = (m68k_get_flag cpu SR_ZERO
          \<or> m68k_get_flag cpu SR_NEGATIVE \<noteq> m68k_get_flag cpu SR_OVERFLOW)"
  unfolding m68k_test_condition_def Let_def
  by (intro conjI; simp; blast?)

text \<open>The table at a state with only the zero flag set: EQ, LS, GE and LE hold, NE, HI, LT and GT do not.\<close>

theorem test_condition_truth_table_witness:
  "m68k_test_condition abcd_example_cpu 0x7 \<and> m68k_test_condition abcd_example_cpu 0x3
   \<and> m68k_test_condition abcd_example_cpu 0xC \<and> m68k_test_condition abcd_example_cpu 0xF
   \<and> \<not> m68k_test_condition abcd_example_cpu 0x6 \<and> \<not> m68k_test_condition abcd_example_cpu 0x2
   \<and> \<not> m68k_test_condition abcd_example_cpu 0xD \<and> \<not> m68k_test_condition abcd_example_cpu 0xE"
  using test_condition_truth_table [of abcd_example_cpu]
  by (simp add: abcd_example_cpu_def m68k_get_flag_def)

subsection \<open>C9: reset keeps the counters, the extension flag and the breakpoints\<close>

text \<open>
  Claim C9. For every processor state, \<^verbatim>\<open>m68k_reset\<close> leaves the startup state of
  \<^verbatim>\<open>m68k_init\<close> (registers, PC, status word, stack pointers, halted flag, bus, cache and
  performance bookkeeping all at their defaults), except that the cycle counter, the
  instruction counter, the extension flag \<^verbatim>\<open>apollo_mode\<close> and the breakpoint set (the
  array with each entry's address, enabled flag and hit count, the number in use and the
  capacity) keep their values from before the reset.
\<close>

theorem reset_keeps_counters_mode_breakpoints:
  "m68k_reset cpu = m68k_init\<lparr> cycle_count := cycle_count cpu,
       instruction_count := instruction_count cpu, apollo_mode := apollo_mode cpu,
       breakpoints := breakpoints cpu, num_breakpoints := num_breakpoints cpu,
       max_breakpoints := max_breakpoints cpu \<rparr>
   \<and> d_reg (m68k_reset cpu) = replicate 8 0
   \<and> a_reg (m68k_reset cpu) = replicate 8 0
   \<and> pc (m68k_reset cpu) = 0
   \<and> sr (m68k_reset cpu) = SR_SUPERVISOR
   \<and> usp (m68k_reset cpu) = 0
   \<and> ssp (m68k_reset cpu) = 0x10000
   \<and> apollo (m68k_reset cpu) = zero_apollo
   \<and> halted (m68k_reset cpu) = False
   \<and> trace_mode (m68k_reset cpu) = False
   \<and> bus_data (m68k_reset cpu) = replicate 128 0
   \<and> bus_address (m68k_reset cpu) = 0
   \<and> bus_active (m68k_reset cpu) = False
   \<and> bus_transfers (m68k_reset cpu) = 0
   \<and> icache (m68k_reset cpu) = replicate 32768 0
   \<and> dcache (m68k_reset cpu) = replicate 32768 0
   \<and> icache_valid (m68k_reset cpu) = replicate 256 False
   \<and> dcache_valid (m68k_reset cpu) = replicate 256 False
   \<and> cache_hits (m68k_reset cpu) = 0
   \<and> cache_misses (m68k_reset cpu) = 0
   \<and> breakpoint_hit (m68k_reset cpu) = False
   \<and> breakpoint_addr (m68k_reset cpu) = 0
   \<and> vbr (m68k_reset cpu) = 0
   \<and> branch_count (m68k_reset cpu) = 0
   \<and> branch_taken (m68k_reset cpu) = 0
   \<and> load_count (m68k_reset cpu) = 0
   \<and> store_count (m68k_reset cpu) = 0
   \<and> cycle_count (m68k_reset cpu) = cycle_count cpu
   \<and> instruction_count (m68k_reset cpu) = instruction_count cpu
   \<and> apollo_mode (m68k_reset cpu) = apollo_mode cpu
   \<and> breakpoints (m68k_reset cpu) = breakpoints cpu
   \<and> num_breakpoints (m68k_reset cpu) = num_breakpoints cpu
   \<and> max_breakpoints (m68k_reset cpu) = max_breakpoints cpu"
proof -
  have whole: "m68k_reset cpu = m68k_init\<lparr> cycle_count := cycle_count cpu,
       instruction_count := instruction_count cpu, apollo_mode := apollo_mode cpu,
       breakpoints := breakpoints cpu, num_breakpoints := num_breakpoints cpu,
       max_breakpoints := max_breakpoints cpu \<rparr>"
    by (simp add: m68k_reset_def Let_def)
  have fields: "d_reg (m68k_reset cpu) = replicate 8 0 \<and> a_reg (m68k_reset cpu) = replicate 8 0
      \<and> pc (m68k_reset cpu) = 0 \<and> sr (m68k_reset cpu) = SR_SUPERVISOR
      \<and> usp (m68k_reset cpu) = 0 \<and> ssp (m68k_reset cpu) = 0x10000
      \<and> apollo (m68k_reset cpu) = zero_apollo \<and> halted (m68k_reset cpu) = False
      \<and> trace_mode (m68k_reset cpu) = False"
    by (simp add: whole m68k_init_def)
  have bus: "bus_data (m68k_reset cpu) = replicate 128 0 \<and> bus_address (m68k_reset cpu) = 0
      \<and> bus_active (m68k_reset cpu) = False \<and> bus_transfers (m68k_reset cpu) = 0
      \<and> icache (m68k_reset cpu) = replicate 32768 0 \<and> dcache (m68k_reset cpu) = replicate 32768 0
      \<and> icache_valid (m68k_reset cpu) = replicate 256 False
      \<and> dcache_valid (m68k_reset cpu) = replicate 256 False
      \<and> cache_hits (m68k_reset cpu) = 0 \<and> cache_misses (m68k_reset cpu) = 0"
    by (simp add: whole m68k_init_def)
  have perf: "breakpoint_hit (m68k_reset cpu) = False \<and> breakpoint_addr (m68k_reset cpu) = 0
      \<and> vbr (m68k_reset cpu) = 0 \<and> branch_count (m68k_reset cpu) = 0
      \<and> branch_taken (m68k_reset cpu) = 0 \<and> load_count (m68k_reset cpu) = 0
      \<and> store_count (m68k_reset cpu) = 0"
    by (simp add: whole m68k_init_def)
  have kept: "cycle_count (m68k_reset cpu) = cycle_count cpu
      \<and> instruction_count (m68k_reset cpu) = instruction_count cpu
      \<and> apollo_mode (m68k_reset cpu) = apollo_mode cpu
      \<and> breakpoints (m68k_reset cpu) = breakpoints cpu
      \<and> num_breakpoints (m68k_reset cpu) = num_breakpoints cpu
      \<and> max_breakpoints (m68k_reset cpu) = max_breakpoints cpu"
    by (simp add: whole)
  from whole fields bus perf kept show ?thesis by blast
qed

subsection \<open>C10: flags of a register-to-register MOVE\<close>

text \<open>
  The handler of \<open>OP_MOVE\<close> stores the whole source register in the destination
  register and then calls \<^verbatim>\<open>m68k_set_flags\<close> with the size \<^verbatim>\<open>get_size(opcode)\<close>.
\<close>

lemma move_handler_effect:
  assumes "length (d_reg cpu) = 8"
  shows "\<exists>cpu'.
      m68k_execute_instruction env cpu memory mem_size OP_MOVE opcode = Some (cpu', memory)
    \<and> d_reg cpu' = (d_reg cpu)[unat (drop_bit 9 opcode AND 0x7) := d_reg cpu ! unat (opcode AND 0x7)]
    \<and> m68k_get_flag cpu' SR_ZERO =
        m68k_get_flag (m68k_set_flags cpu (d_reg cpu ! unat (opcode AND 0x7)) (get_size opcode)) SR_ZERO
    \<and> m68k_get_flag cpu' SR_NEGATIVE =
        m68k_get_flag (m68k_set_flags cpu (d_reg cpu ! unat (opcode AND 0x7)) (get_size opcode)) SR_NEGATIVE"
  by (simp add: m68k_execute_instruction_def execute_switch_def Let_def m68k_get_flag_def
        m68k_set_flags_def m68k_set_flag_def)

text \<open>
  \<^verbatim>\<open>get_size\<close> reads bits 7 and 6 of the opcode. The decoder, however, takes the size
  of a MOVE from the opcode's high nibble (\<^verbatim>\<open>params[0] = hi4; // size: 1=byte, 3=word, 2=long\<close>);
  bits 7 and 6 belong to the destination mode, which is zero whenever the destination is
  a data register. The handler therefore works with the byte size for every
  register-to-register MOVE, whatever its size.
\<close>

lemma register_move_size_is_byte:
  assumes "opcode AND 0x00C0 = 0"
  shows "get_size opcode = SIZE_BYTE"
proof -
  have "drop_bit 6 opcode AND 0x3 = drop_bit 6 (opcode AND 0x00C0)"
    by (simp add: bit_eq_iff bit_simps)
  then show ?thesis using assms by (simp add: get_size_def Let_def)
qed

lemma register_move_sizes:
  "get_size 0x1200 = SIZE_BYTE" "get_size 0x3200 = SIZE_BYTE" "get_size 0x2200 = SIZE_BYTE"
  by (simp_all add: get_size_def)

lemma register_move_flags:
  assumes "opcode AND 0x00C0 = 0"
  shows "m68k_get_flag (m68k_set_flags cpu r (get_size opcode)) SR_ZERO = (take_bit 8 r = 0)"
    and "m68k_get_flag (m68k_set_flags cpu r (get_size opcode)) SR_NEGATIVE = bit r 7"
  by (simp_all add: register_move_size_is_byte [OF assms] set_flags_zero set_flags_negative)

text \<open>
  Claim C10 says that a register-to-register MOVE of every size (byte, word or long)
  writes the whole 32-bit source value into the destination register and computes Z and
  N from the result truncated to the size of the MOVE. The first half holds; the second
  fails for word and long.

  \<^item> \<^verbatim>\<open>MOVE.L D0,D1\<close> (0x2200, decoded as \<open>OP_MOVE\<close> with size parameter 2) with
    D0 = 0x12345600: D1 becomes 0x12345600 and Z is set, in the handler and in a whole
    step, although the 32-bit result is not zero: \<^verbatim>\<open>m68k_set_flags\<close> called with the
    long size clears Z.
  \<^item> \<^verbatim>\<open>MOVE.W D0,D1\<close> (0x3200, size parameter 3) with D0 = 0x00018000: D1 becomes
    0x00018000, Z is set and N is clear, although the low word 0x8000 is not zero and
    its bit 15 is set: \<^verbatim>\<open>m68k_set_flags\<close> called with the word size clears Z and sets N.
\<close>

theorem move_long_and_word_take_flags_from_low_byte:
  "m68k_decode_instruction m68k_init 0x2200 = (OP_MOVE, no_params[0 := 2])
   \<and> map_option (\<lambda>(c, m). (d_reg c ! 1, m68k_get_flag c SR_ZERO, m68k_get_flag c SR_NEGATIVE))
        (m68k_execute_instruction env move_example_cpu [] 0 OP_MOVE 0x2200)
      = Some (0x12345600, True, False)
   \<and> map_option (\<lambda>(c, m). (d_reg c ! 1, m68k_get_flag c SR_ZERO, m68k_get_flag c SR_NEGATIVE, pc c))
        (m68k_execute_cycle env move_example_cpu move_long_program 128)
      = Some (0x12345600, True, False, 2)
   \<and> m68k_get_flag (m68k_set_flags move_example_cpu 0x12345600 SIZE_LONG) SR_ZERO = False
   \<and> m68k_decode_instruction m68k_init 0x3200 = (OP_MOVE, no_params[0 := 3])
   \<and> map_option (\<lambda>(c, m). (d_reg c ! 1, m68k_get_flag c SR_ZERO, m68k_get_flag c SR_NEGATIVE))
        (m68k_execute_instruction env move_word_cpu [] 0 OP_MOVE 0x3200)
      = Some (0x00018000, True, False)
   \<and> map_option (\<lambda>(c, m). (d_reg c ! 1, m68k_get_flag c SR_ZERO, m68k_get_flag c SR_NEGATIVE, pc c))
        (m68k_execute_cycle env move_word_cpu move_word_program 128)
      = Some (0x00018000, True, False, 2)
   \<and> m68k_get_flag (m68k_set_flags move_word_cpu 0x00018000 SIZE_WORD) SR_ZERO = False
   \<and> m68k_get_flag (m68k_set_flags move_word_cpu 0x00018000 SIZE_WORD) SR_NEGATIVE = True"
proof -
  have dec: "m68k_decode_instruction m68k_init 0x2200 = (OP_MOVE, no_params[0 := 2])"
      "m68k_decode_instruction m68k_init 0x3200 = (OP_MOVE, no_params[0 := 3])"
    by (simp_all add: m68k_decode_instruction_def Let_def)
  have long_handler:
    "map_option (\<lambda>(c, m). (d_reg c ! 1, m68k_get_flag c SR_ZERO, m68k_get_flag c SR_NEGATIVE))
        (m68k_execute_instruction env move_example_cpu [] 0 OP_MOVE 0x2200)
      = Some (0x12345600, True, False)"
    by (simp add: step_defs m68k_init_def move_example_cpu_def)
  have long_step:
    "map_option (\<lambda>(c, m). (d_reg c ! 1, m68k_get_flag c SR_ZERO, m68k_get_flag c SR_NEGATIVE, pc c))
        (m68k_execute_cycle env move_example_cpu move_long_program 128)
      = Some (0x12345600, True, False, 2)"
    by (simp add: step_defs m68k_init_def move_example_cpu_def move_long_program_def)
  have long_flags:
    "m68k_get_flag (m68k_set_flags move_example_cpu 0x12345600 SIZE_LONG) SR_ZERO = False"
    by (simp add: set_flags_zero)
  have word_handler:
    "map_option (\<lambda>(c, m). (d_reg c ! 1, m68k_get_flag c SR_ZERO, m68k_get_flag c SR_NEGATIVE))
        (m68k_execute_instruction env move_word_cpu [] 0 OP_MOVE 0x3200)
      = Some (0x00018000, True, False)"
    by (simp add: step_defs m68k_init_def move_word_cpu_def)
  have word_step:
    "map_option (\<lambda>(c, m). (d_reg c ! 1, m68k_get_flag c SR_ZERO, m68k_get_flag c SR_NEGATIVE, pc c))
        (m68k_execute_cycle env move_word_cpu move_word_program 128)
      = Some (0x00018000, True, False, 2)"
    by (simp add: step_defs m68k_init_def move_word_cpu_def move_word_program_def)
  have word_flags:
    "m68k_get_flag (m68k_set_flags move_word_cpu 0x00018000 SIZE_WORD) SR_ZERO = False"
    "m68k_get_flag (m68k_set_flags move_word_cpu 0x00018000 SIZE_WORD) SR_NEGATIVE = True"
    by (simp_all add: set_flags_zero set_flags_negative)
  from dec long_handler long_step long_flags word_handler word_step word_flags
  show ?thesis by simp
qed

subsection \<open>C7: ABCD of 0x09 and 0x01\<close>

lemma bcd_store_flags:
  "m68k_get_flag (bcd_store cpu rd result carry) SR_CARRY = carry"
  "m68k_get_flag (bcd_store cpu rd result carry) SR_EXTEND = carry"
  "m68k_get_flag (bcd_store cpu rd result carry) SR_ZERO = (result = 0 \<and> m68k_get_flag cpu SR_ZERO)"
  "d_reg (bcd_store cpu rd result carry) = (d_reg cpu)[rd := (d_reg cpu ! rd AND 0xFFFFFF00) OR ucast result]"
  by (simp_all add: bcd_store_def Let_def m68k_get_flag_def m68k_set_flag_def
        bit.conj_disj_distrib2 and.assoc or_eq_0_iff)

lemma abcd_digits:
  assumes "\<not> m68k_get_flag cpu SR_EXTEND"
      and "(d_reg cpu ! unat (opcode AND 0x7) AND 0xFF = 0x09
            \<and> d_reg cpu ! unat (drop_bit 9 opcode AND 0x7) AND 0xFF = 0x01)
         \<or> (d_reg cpu ! unat (opcode AND 0x7) AND 0xFF = 0x01
            \<and> d_reg cpu ! unat (drop_bit 9 opcode AND 0x7) AND 0xFF = 0x09)"
  shows "m68k_execute_bcd cpu OP_ABCD opcode =
           bcd_store cpu (unat (drop_bit 9 opcode AND 0x7)) 0x10 False"
  using assms by (auto simp add: m68k_execute_bcd_def Let_def)

text \<open>
  Claim C7, as amended. Executing the ABCD handler with source low byte 0x09 and
  destination low byte 0x01 (or 0x01 and 0x09) while the extend flag is clear stores the
  result byte 0x10 in the low byte of the destination register, keeps its upper 24 bits,
  sets carry and extend to false, and clears the zero flag, because the result is not
  zero: the zero flag is false afterwards also when it was true before.
\<close>

theorem abcd_9_plus_1_clears_zero:
  assumes "length (d_reg cpu) = 8"
      and "\<not> m68k_get_flag cpu SR_EXTEND"
      and "(d_reg cpu ! unat (opcode AND 0x7) AND 0xFF = 0x09
            \<and> d_reg cpu ! unat (drop_bit 9 opcode AND 0x7) AND 0xFF = 0x01)
         \<or> (d_reg cpu ! unat (opcode AND 0x7) AND 0xFF = 0x01
            \<and> d_reg cpu ! unat (drop_bit 9 opcode AND 0x7) AND 0xFF = 0x09)"
  shows "d_reg (m68k_execute_bcd cpu OP_ABCD opcode) ! unat (drop_bit 9 opcode AND 0x7) AND 0xFF = 0x10
       \<and> d_reg (m68k_execute_bcd cpu OP_ABCD opcode) ! unat (drop_bit 9 opcode AND 0x7) AND 0xFFFFFF00
           = d_reg cpu ! unat (drop_bit 9 opcode AND 0x7) AND 0xFFFFFF00
       \<and> \<not> m68k_get_flag (m68k_execute_bcd cpu OP_ABCD opcode) SR_CARRY
       \<and> \<not> m68k_get_flag (m68k_execute_bcd cpu OP_ABCD opcode) SR_EXTEND
       \<and> \<not> m68k_get_flag (m68k_execute_bcd cpu OP_ABCD opcode) SR_ZERO"
proof -
  let ?rd = "unat (drop_bit 9 opcode AND 0x7)"
  have run: "m68k_execute_bcd cpu OP_ABCD opcode = bcd_store cpu ?rd 0x10 False"
    using assms(2,3) by (rule abcd_digits)
  have "?rd < length (d_reg cpu)"
    using assms(1) unat_and7_less [of "drop_bit 9 opcode"] by simp
  then have reg: "d_reg (bcd_store cpu ?rd 0x10 False) ! ?rd = (d_reg cpu ! ?rd AND 0xFFFFFF00) OR 0x10"
    by (simp add: bcd_store_flags)
  show ?thesis
    unfolding run reg by (simp add: bcd_store_flags low_byte_16 high_bytes_16)
qed

text \<open>\<^verbatim>\<open>ABCD D0,D1\<close> (opcode 0xC300) with D0 = 9, D1 = 1, Z set and X clear.\<close>

theorem abcd_9_plus_1_clears_zero_witness:
  "length (d_reg abcd_example_cpu) = 8
   \<and> \<not> m68k_get_flag abcd_example_cpu SR_EXTEND
   \<and> d_reg abcd_example_cpu ! 0 AND 0xFF = 0x09
   \<and> d_reg abcd_example_cpu ! 1 AND 0xFF = 0x01
   \<and> d_reg (m68k_execute_bcd abcd_example_cpu OP_ABCD 0xC300) ! 1 AND 0xFF = 0x10
   \<and> \<not> m68k_get_flag (m68k_execute_bcd abcd_example_cpu OP_ABCD 0xC300) SR_CARRY
   \<and> \<not> m68k_get_flag (m68k_execute_bcd abcd_example_cpu OP_ABCD 0xC300) SR_EXTEND
   \<and> \<not> m68k_get_flag (m68k_execute_bcd abcd_example_cpu OP_ABCD 0xC300) SR_ZERO"
proof -
  have h1: "length (d_reg abcd_example_cpu) = 8"
    by (simp add: abcd_example_cpu_def)
  have h2: "\<not> m68k_get_flag abcd_example_cpu SR_EXTEND"
    by (simp add: abcd_example_cpu_def m68k_get_flag_def)
  have h3: "(d_reg abcd_example_cpu ! unat ((0xC300 :: u16) AND 0x7) AND 0xFF = 0x09
            \<and> d_reg abcd_example_cpu ! unat (drop_bit 9 (0xC300 :: u16) AND 0x7) AND 0xFF = 0x01)
         \<or> (d_reg abcd_example_cpu ! unat ((0xC300 :: u16) AND 0x7) AND 0xFF = 0x01
            \<and> d_reg abcd_example_cpu ! unat (drop_bit 9 (0xC300 :: u16) AND 0x7) AND 0xFF = 0x09)"
    by (simp add: abcd_example_cpu_def)
  show ?thesis
    using h1 h2 h3 abcd_9_plus_1_clears_zero [OF h1 h2 h3]
    by (simp add: abcd_example_cpu_def)
qed

text \<open>
  Claim C7 as stated fails: at that input the zero flag is true before the handler and
  false after it.
\<close>

theorem abcd_zero_flag_counterexample:
  "m68k_get_flag abcd_example_cpu SR_ZERO
   \<and> \<not> m68k_get_flag abcd_example_cpu SR_EXTEND
   \<and> d_reg abcd_example_cpu ! unat ((0xC300 :: u16) AND 0x7) AND 0xFF = 0x09
   \<and> d_reg abcd_example_cpu ! unat (drop_bit 9 (0xC300 :: u16) AND 0x7) AND 0xFF = 0x01
   \<and> m68k_get_flag (m68k_execute_bcd abcd_example_cpu OP_ABCD 0xC300) SR_ZERO
       \<noteq> m68k_get_flag abcd_example_cpu SR_ZERO"
  by (simp add: abcd_example_cpu_def m68k_execute_bcd_def bcd_store_def m68k_get_flag_def
        m68k_set_flag_def Let_def)

subsection \<open>C5: post-increment and pre-decrement step by the operand size\<close>

lemma read_memory_a_reg: "a_reg (snd (m68k_read_memory cpu memory mem_size addr sz)) = a_reg cpu"
  by (simp add: m68k_read_memory_def Let_def)

lemma read_memory_value:
  "fst (m68k_read_memory cpu1 memory mem_size addr sz)
     = fst (m68k_read_memory cpu2 memory mem_size addr sz)"
  by (simp add: m68k_read_memory_def Let_def)

lemma write_memory_a_reg:
  "a_reg (fst (m68k_write_memory cpu memory mem_size addr val sz)) = a_reg cpu"
  by (simp add: m68k_write_memory_def Let_def)

lemma write_memory_bytes:
  "snd (m68k_write_memory cpu1 memory mem_size addr val sz)
     = snd (m68k_write_memory cpu2 memory mem_size addr val sz)"
  by (simp add: m68k_write_memory_def Let_def)

text \<open>
  Claim C5, as amended. For every post-increment resolution (mode 3, read or write) of
  an address register A0 to A7, the access is made at the register's old value and the
  register is increased by the operand size; for every pre-decrement resolution (mode 4)
  the register is decreased by the operand size and the access is made at the new value.
  The step is the operand size for every register: for byte-sized operands on the stack
  pointer A7 it is 1, as for any other address register.
\<close>

theorem auto_step_is_operand_size:
  assumes "length (a_reg cpu) = 8" and "unat reg < 8"
  shows "a_reg (snd (m68k_get_ea_value cpu memory mem_size 3 reg sz)) ! unat reg
           = a_reg cpu ! unat reg + size_val sz
       \<and> fst (m68k_get_ea_value cpu memory mem_size 3 reg sz)
           = fst (m68k_read_memory cpu memory mem_size (a_reg cpu ! unat reg) sz)
       \<and> a_reg (snd (m68k_get_ea_value cpu memory mem_size 4 reg sz)) ! unat reg
           = a_reg cpu ! unat reg - size_val sz
       \<and> fst (m68k_get_ea_value cpu memory mem_size 4 reg sz)
           = fst (m68k_read_memory cpu memory mem_size (a_reg cpu ! unat reg - size_val sz) sz)
       \<and> a_reg (fst (m68k_set_ea_value cpu memory mem_size 3 reg val sz)) ! unat reg
           = a_reg cpu ! unat reg + size_val sz
       \<and> snd (m68k_set_ea_value cpu memory mem_size 3 reg val sz)
           = snd (m68k_write_memory cpu memory mem_size (a_reg cpu ! unat reg) val sz)
       \<and> a_reg (fst (m68k_set_ea_value cpu memory mem_size 4 reg val sz)) ! unat reg
           = a_reg cpu ! unat reg - size_val sz
       \<and> snd (m68k_set_ea_value cpu memory mem_size 4 reg val sz)
           = snd (m68k_write_memory cpu memory mem_size (a_reg cpu ! unat reg - size_val sz) val sz)
       \<and> size_val SIZE_BYTE = 1"
proof -
  let ?r = "unat reg"
  let ?up = "set_a cpu ?r (a_reg cpu ! ?r + size_val sz)"
  let ?down = "set_a cpu ?r (a_reg cpu ! ?r - size_val sz)"
  have r: "?r < length (a_reg cpu)" using assms by simp
  have g3: "m68k_get_ea_value cpu memory mem_size 3 reg sz
              = m68k_read_memory ?up memory mem_size (a_reg cpu ! ?r) sz"
    by (simp add: m68k_get_ea_value_def Let_def)
  have g4: "m68k_get_ea_value cpu memory mem_size 4 reg sz
              = m68k_read_memory ?down memory mem_size (a_reg cpu ! ?r - size_val sz) sz"
    using r by (simp add: m68k_get_ea_value_def Let_def)
  have s3: "m68k_set_ea_value cpu memory mem_size 3 reg val sz
              = (let (cpu1, memory1) = m68k_write_memory cpu memory mem_size (a_reg cpu ! ?r) val sz
                 in (set_a cpu1 ?r (a_reg cpu1 ! ?r + size_val sz), memory1))"
    by (simp add: m68k_set_ea_value_def Let_def)
  have s4: "m68k_set_ea_value cpu memory mem_size 4 reg val sz
              = m68k_write_memory ?down memory mem_size (a_reg cpu ! ?r - size_val sz) val sz"
    using r by (simp add: m68k_set_ea_value_def Let_def)
  have c1: "a_reg (snd (m68k_get_ea_value cpu memory mem_size 3 reg sz)) ! ?r
              = a_reg cpu ! ?r + size_val sz"
    using r by (simp add: g3 read_memory_a_reg)
  have c2: "fst (m68k_get_ea_value cpu memory mem_size 3 reg sz)
              = fst (m68k_read_memory cpu memory mem_size (a_reg cpu ! ?r) sz)"
    unfolding g3 by (rule read_memory_value)
  have c3: "a_reg (snd (m68k_get_ea_value cpu memory mem_size 4 reg sz)) ! ?r
              = a_reg cpu ! ?r - size_val sz"
    using r by (simp add: g4 read_memory_a_reg)
  have c4: "fst (m68k_get_ea_value cpu memory mem_size 4 reg sz)
              = fst (m68k_read_memory cpu memory mem_size (a_reg cpu ! ?r - size_val sz) sz)"
    unfolding g4 by (rule read_memory_value)
  have c5: "a_reg (fst (m68k_set_ea_value cpu memory mem_size 3 reg val sz)) ! ?r
              = a_reg cpu ! ?r + size_val sz"
    using r write_memory_a_reg [of cpu memory mem_size "a_reg cpu ! ?r" val sz]
    by (simp add: s3 split_beta)
  have c6: "snd (m68k_set_ea_value cpu memory mem_size 3 reg val sz)
              = snd (m68k_write_memory cpu memory mem_size (a_reg cpu ! ?r) val sz)"
    by (simp add: s3 split_beta)
  have c7: "a_reg (fst (m68k_set_ea_value cpu memory mem_size 4 reg val sz)) ! ?r
              = a_reg cpu ! ?r - size_val sz"
    using r by (simp add: s4 write_memory_a_reg)
  have c8: "snd (m68k_set_ea_value cpu memory mem_size 4 reg val sz)
              = snd (m68k_write_memory cpu memory mem_size (a_reg cpu ! ?r - size_val sz) val sz)"
    unfolding s4 by (rule write_memory_bytes)
  from c1 c2 c3 c4 c5 c6 c7 c8 show ?thesis by simp
qed

text \<open>Byte-sized accesses through A7 = 0x40: the register moves to 0x41 or to 0x3F.\<close>

theorem auto_step_is_operand_size_witness:
  "length (a_reg stack_example_cpu) = 8 \<and> unat (7 :: u8) < 8
   \<and> a_reg (snd (m68k_get_ea_value stack_example_cpu zero_memory 128 3 7 SIZE_BYTE)) ! 7 = 0x41
   \<and> a_reg (snd (m68k_get_ea_value stack_example_cpu zero_memory 128 4 7 SIZE_BYTE)) ! 7 = 0x3F
   \<and> a_reg (fst (m68k_set_ea_value stack_example_cpu zero_memory 128 3 7 0xAB SIZE_BYTE)) ! 7 = 0x41
   \<and> a_reg (fst (m68k_set_ea_value stack_example_cpu zero_memory 128 4 7 0xAB SIZE_BYTE)) ! 7 = 0x3F"
proof -
  have h1: "length (a_reg stack_example_cpu) = 8" by (simp add: stack_example_cpu_def)
  have h2: "unat (7 :: u8) < 8" by simp
  have a7: "a_reg stack_example_cpu ! 7 = 0x40" by (simp add: stack_example_cpu_def)
  show ?thesis
    using h1 h2 auto_step_is_operand_size [OF h1 h2, of zero_memory 128 SIZE_BYTE "0xAB"]
    by (simp add: a7)
qed

text \<open>
  Claim C5 as stated fails in its last part: a byte-sized post-increment or
  pre-decrement through A7 does not move the register by 2.
\<close>

theorem stack_pointer_byte_step_counterexample:
  "a_reg (snd (m68k_get_ea_value stack_example_cpu zero_memory 128 3 7 SIZE_BYTE)) ! 7
     \<noteq> a_reg stack_example_cpu ! 7 + 2
   \<and> a_reg (snd (m68k_get_ea_value stack_example_cpu zero_memory 128 4 7 SIZE_BYTE)) ! 7
     \<noteq> a_reg stack_example_cpu ! 7 - 2
   \<and> a_reg (fst (m68k_set_ea_value stack_example_cpu zero_memory 128 3 7 0xAB SIZE_BYTE)) ! 7
     \<noteq> a_reg stack_example_cpu ! 7 + 2
   \<and> a_reg (fst (m68k_set_ea_value stack_example_cpu zero_memory 128 4 7 0xAB SIZE_BYTE)) ! 7
     \<noteq> a_reg stack_example_cpu ! 7 - 2"
  by (simp add: m68k_get_ea_value_def m68k_set_ea_value_def m68k_read_memory_def
        m68k_write_memory_def stack_example_cpu_def zero_memory_def Let_def)

subsection \<open>C8: a breakpoint hit halts the step before the fetch\<close>

lemma check_breakpoint_from_first_match:
  assumes "k \<le> i" and "int i < num_breakpoints cpu"
      and "enabled (breakpoints cpu ! i)" and "address (breakpoints cpu ! i) = addr"
      and "\<forall>j. k \<le> j \<and> j < i \<longrightarrow>
             \<not> (enabled (breakpoints cpu ! j) \<and> address (breakpoints cpu ! j) = addr)"
  shows "check_breakpoint_from cpu addr (int k) =
           (True, cpu\<lparr> breakpoints := (breakpoints cpu)
                          [i := (breakpoints cpu ! i)\<lparr> hit_count := hit_count (breakpoints cpu ! i) + 1 \<rparr>],
                        breakpoint_hit := True, breakpoint_addr := addr \<rparr>)"
  using assms
proof (induction "i - k" arbitrary: k)
  case 0
  then have "k = i" by simp
  with 0 show ?case
    by (subst check_breakpoint_from.simps) (simp add: Let_def)
next
  case (Suc n)
  then have lt: "k < i" by simp
  with Suc.prems have in_use: "int k < num_breakpoints cpu" by simp
  from lt Suc.prems have miss:
    "\<not> (enabled (breakpoints cpu ! k) \<and> address (breakpoints cpu ! k) = addr)" by simp
  have step: "check_breakpoint_from cpu addr (int k) = check_breakpoint_from cpu addr (int (Suc k))"
    using in_use miss
    by (subst check_breakpoint_from.simps) (auto simp add: Let_def add.commute)
  have "check_breakpoint_from cpu addr (int (Suc k)) =
           (True, cpu\<lparr> breakpoints := (breakpoints cpu)
                          [i := (breakpoints cpu ! i)\<lparr> hit_count := hit_count (breakpoints cpu ! i) + 1 \<rparr>],
                        breakpoint_hit := True, breakpoint_addr := addr \<rparr>)"
  proof (rule Suc.hyps(1))
    show "n = i - Suc k" using Suc.hyps(2) by simp
    show "Suc k \<le> i" using lt by simp
    show "int i < num_breakpoints cpu" by (rule Suc.prems(2))
    show "enabled (breakpoints cpu ! i)" by (rule Suc.prems(3))
    show "address (breakpoints cpu ! i) = addr" by (rule Suc.prems(4))
    show "\<forall>j. Suc k \<le> j \<and> j < i \<longrightarrow>
             \<not> (enabled (breakpoints cpu ! j) \<and> address (breakpoints cpu ! j) = addr)"
      using Suc.prems(5) by simp
  qed
  with step show ?case by simp
qed

text \<open>
  Claim C8, as amended. Let the processor be not halted, and let entry \<open>i\<close> be the first
  entry in use of the breakpoint array that is enabled and whose address is the PC. Then
  one call of the step operation sets the halted flag, increments the hit counter of
  entry \<open>i\<close> by exactly one (so once per arrival, also after each resume), and returns
  without fetching, decoding or executing: PC, registers, status word, counters and
  memory are unchanged, and the only other fields written are \<^verbatim>\<open>bus_active\<close>,
  \<^verbatim>\<open>breakpoint_hit\<close> and \<^verbatim>\<open>breakpoint_addr\<close>. Every other breakpoint entry, also
  an enabled one with the same address, is left as it was.
\<close>

theorem breakpoint_step_counts_first_match:
  assumes "\<not> halted cpu"
      and "num_breakpoints cpu \<le> int (length (breakpoints cpu))"
      and "int i < num_breakpoints cpu"
      and "enabled (breakpoints cpu ! i)" and "address (breakpoints cpu ! i) = pc cpu"
      and "\<forall>j<i. \<not> (enabled (breakpoints cpu ! j) \<and> address (breakpoints cpu ! j) = pc cpu)"
  shows "\<exists>cpu'. m68k_execute_cycle env cpu memory mem_size = Some (cpu', memory)
       \<and> cpu' = cpu\<lparr> bus_active := False,
                     breakpoints := (breakpoints cpu)
                       [i := (breakpoints cpu ! i)\<lparr> hit_count := hit_count (breakpoints cpu ! i) + 1 \<rparr>],
                     breakpoint_hit := True, breakpoint_addr := pc cpu, halted := True \<rparr>
       \<and> halted cpu'
       \<and> hit_count (breakpoints cpu' ! i) = hit_count (breakpoints cpu ! i) + 1
       \<and> address (breakpoints cpu' ! i) = address (breakpoints cpu ! i)
       \<and> enabled (breakpoints cpu' ! i)
       \<and> (\<forall>j. j \<noteq> i \<longrightarrow> breakpoints cpu' ! j = breakpoints cpu ! j)
       \<and> pc cpu' = pc cpu \<and> d_reg cpu' = d_reg cpu \<and> a_reg cpu' = a_reg cpu \<and> sr cpu' = sr cpu
       \<and> cycle_count cpu' = cycle_count cpu \<and> instruction_count cpu' = instruction_count cpu"
proof -
  let ?c1 = "cpu\<lparr> bus_active := False \<rparr>"
  have "check_breakpoint_from ?c1 (pc cpu) (int 0) =
          (True, ?c1\<lparr> breakpoints := (breakpoints ?c1)
                          [i := (breakpoints ?c1 ! i)\<lparr> hit_count := hit_count (breakpoints ?c1 ! i) + 1 \<rparr>],
                       breakpoint_hit := True, breakpoint_addr := pc cpu \<rparr>)"
    using assms by (intro check_breakpoint_from_first_match) simp_all
  then have run: "m68k_execute_cycle env cpu memory mem_size =
      Some (cpu\<lparr> bus_active := False,
                 breakpoints := (breakpoints cpu)
                   [i := (breakpoints cpu ! i)\<lparr> hit_count := hit_count (breakpoints cpu ! i) + 1 \<rparr>],
                 breakpoint_hit := True, breakpoint_addr := pc cpu, halted := True \<rparr>, memory)"
    using assms(1) by (simp add: m68k_execute_cycle_def m68k_check_breakpoint_def Let_def)
  have "i < length (breakpoints cpu)" using assms(2,3) by simp
  with run assms(4) show ?thesis by simp
qed

text \<open>One breakpoint added at address 0, PC = 0: the step halts and the counter goes from 0 to 1.\<close>

theorem breakpoint_step_counts_first_match_witness:
  "\<not> halted single_breakpoint_cpu
   \<and> num_breakpoints single_breakpoint_cpu \<le> int (length (breakpoints single_breakpoint_cpu))
   \<and> int 0 < num_breakpoints single_breakpoint_cpu
   \<and> enabled (breakpoints single_breakpoint_cpu ! 0)
   \<and> address (breakpoints single_breakpoint_cpu ! 0) = pc single_breakpoint_cpu
   \<and> (\<exists>cpu'. m68k_execute_cycle env0 single_breakpoint_cpu zero_memory 128 = Some (cpu', zero_memory)
         \<and> halted cpu' \<and> hit_count (breakpoints cpu' ! 0) = 1 \<and> pc cpu' = 0)"
proof -
  have h1: "\<not> halted single_breakpoint_cpu"
    by (simp add: single_breakpoint_cpu_def m68k_add_breakpoint_def m68k_init_def Let_def)
  have h2: "num_breakpoints single_breakpoint_cpu \<le> int (length (breakpoints single_breakpoint_cpu))"
    by (simp add: single_breakpoint_cpu_def m68k_add_breakpoint_def m68k_init_def Let_def)
  have h3: "int 0 < num_breakpoints single_breakpoint_cpu"
    by (simp add: single_breakpoint_cpu_def m68k_add_breakpoint_def m68k_init_def Let_def)
  have h4: "enabled (breakpoints single_breakpoint_cpu ! 0)"
    by (simp add: single_breakpoint_cpu_def m68k_add_breakpoint_def m68k_init_def Let_def)
  have h5: "address (breakpoints single_breakpoint_cpu ! 0) = pc single_breakpoint_cpu"
    by (simp add: single_breakpoint_cpu_def m68k_add_breakpoint_def m68k_init_def Let_def)
  have h6: "\<forall>j<0. \<not> (enabled (breakpoints single_breakpoint_cpu ! j)
              \<and> address (breakpoints single_breakpoint_cpu ! j) = pc single_breakpoint_cpu)"
    by simp
  have old: "hit_count (breakpoints single_breakpoint_cpu ! 0) = 0" "pc single_breakpoint_cpu = 0"
    by (simp_all add: single_breakpoint_cpu_def m68k_add_breakpoint_def m68k_init_def Let_def)
  show ?thesis
    using h1 h2 h3 h4 h5
      breakpoint_step_counts_first_match [OF h1 h2 h3 h4 h5 h6, of env0 zero_memory 128]
    by (auto simp add: old)
qed

text \<open>
  Claim C8 as stated fails for a second breakpoint at the same address: after
  \<^verbatim>\<open>m68k_add_breakpoint\<close> is called twice with address 0, entry 1 is enabled and set at
  the PC, the step halts, and the hit counter of entry 1 is not incremented.
\<close>

theorem second_breakpoint_at_same_address_counterexample:
  "\<not> halted duplicate_breakpoints_cpu
   \<and> num_breakpoints duplicate_breakpoints_cpu = 2
   \<and> enabled (breakpoints duplicate_breakpoints_cpu ! 1)
   \<and> address (breakpoints duplicate_breakpoints_cpu ! 1) = pc duplicate_breakpoints_cpu
   \<and> m68k_execute_cycle env0 duplicate_breakpoints_cpu zero_memory 128 \<noteq> None
   \<and> halted (fst (the (m68k_execute_cycle env0 duplicate_breakpoints_cpu zero_memory 128)))
   \<and> hit_count (breakpoints (fst (the (m68k_execute_cycle env0 duplicate_breakpoints_cpu zero_memory 128))) ! 1)
       \<noteq> hit_count (breakpoints duplicate_breakpoints_cpu ! 1) + 1"
  by (simp add: duplicate_breakpoints_cpu_def m68k_add_breakpoint_def m68k_init_def
        m68k_execute_cycle_def m68k_check_breakpoint_def check_breakpoint_from.simps
        zero_breakpoint_def Let_def)

subsection \<open>C1: the end-to-end scenario\<close>

lemma eight_steps: "(8 :: nat) = Suc (Suc (Suc (Suc (Suc (Suc (Suc (Suc 0)))))))"
  by simp

text \<open>
  Claim C1 says that eight steps from the startup state over the scenario program leave
  D0 = 1, D1 = 3 and D2 = 3. The decoder tags \<^verbatim>\<open>ADD.W\<close>, \<^verbatim>\<open>SUB.W\<close> and
  \<^verbatim>\<open>CMP.W\<close> as \<open>OP_ADD\<close>, \<open>OP_SUB\<close> and \<open>OP_CMP\<close>, which lie between \<open>OP_LEA\<close> and
  \<open>OP_STOP\<close>; the step operation therefore hands them to \<^verbatim>\<open>m68k_execute_special\<close>,
  which has no case for them. The eight steps leave D0 = 1, D1 = 2 and D2 = 3, PC = 16,
  and count three instructions.
\<close>

theorem scenario_leaves_d1_at_2:
  "fst (m68k_decode_instruction m68k_init 0xD240) = OP_ADD
   \<and> map_option (\<lambda>(c, m). (d_reg c ! 0, d_reg c ! 1, d_reg c ! 2, pc c, instruction_count c, halted c))
        (run_cycles env 8 m68k_init scenario_program 128)
      = Some (1, 2, 3, 16, 3, False)"
proof -
  have dec: "fst (m68k_decode_instruction m68k_init 0xD240) = OP_ADD"
    by (simp add: m68k_decode_instruction_def Let_def)
  have run: "map_option (\<lambda>(c, m). (d_reg c ! 0, d_reg c ! 1, d_reg c ! 2, pc c, instruction_count c, halted c))
        (run_cycles env 8 m68k_init scenario_program 128)
      = Some (1, 2, 3, 16, 3, False)"
    apply (subst eight_steps)
    apply (simp add: step_defs m68k_init_def scenario_program_def replicate_8)
    done
  from dec run show ?thesis by simp
qed

subsection \<open>C2: the instruction counter\<close>

text \<open>
  Claim C2 says that every step of a processor that is not halted and not at a
  breakpoint adds one to the instruction counter, whatever family handles the
  operation. Only \<^verbatim>\<open>m68k_execute_instruction\<close> increments the counter. From the startup
  state (not halted, no breakpoint in use), a step over \<^verbatim>\<open>BRA.S\<close> (branch family) or
  \<^verbatim>\<open>LEA (A0),A1\<close> (special family) leaves the counter unchanged, while a step over
  \<^verbatim>\<open>MOVEQ\<close> (general family) adds one.
\<close>

theorem branch_and_special_steps_leave_counter:
  "halted m68k_init = False
   \<and> num_breakpoints m68k_init = 0
   \<and> fst (m68k_decode_instruction m68k_init 0x6002) = OP_BRA
   \<and> map_option (\<lambda>(c, m). (instruction_count c, pc c, halted c))
        (m68k_execute_cycle env m68k_init bra_program 128)
      = Some (instruction_count m68k_init, 4, False)
   \<and> fst (m68k_decode_instruction m68k_init 0x43D0) = OP_LEA
   \<and> map_option (\<lambda>(c, m). (instruction_count c, pc c, halted c))
        (m68k_execute_cycle env m68k_init lea_program 128)
      = Some (instruction_count m68k_init, 2, False)
   \<and> fst (m68k_decode_instruction m68k_init 0x7001) = OP_MOVEQ
   \<and> map_option (\<lambda>(c, m). (instruction_count c, pc c, halted c))
        (m68k_execute_cycle env m68k_init moveq_program 128)
      = Some (instruction_count m68k_init + 1, 2, False)"
proof -
  have init: "halted m68k_init = False \<and> num_breakpoints m68k_init = 0"
    by (simp add: m68k_init_def)
  have dec: "fst (m68k_decode_instruction m68k_init 0x6002) = OP_BRA
      \<and> fst (m68k_decode_instruction m68k_init 0x43D0) = OP_LEA
      \<and> fst (m68k_decode_instruction m68k_init 0x7001) = OP_MOVEQ"
    by (simp add: m68k_decode_instruction_def decode_line4_def Let_def)
  have bra: "map_option (\<lambda>(c, m). (instruction_count c, pc c, halted c))
        (m68k_execute_cycle env m68k_init bra_program 128)
      = Some (instruction_count m68k_init, 4, False)"
    by (simp add: step_defs m68k_init_def bra_program_def)
  have lea: "map_option (\<lambda>(c, m). (instruction_count c, pc c, halted c))
        (m68k_execute_cycle env m68k_init lea_program 128)
      = Some (instruction_count m68k_init, 2, False)"
    by (simp add: step_defs m68k_init_def lea_program_def)
  have moveq: "map_option (\<lambda>(c, m). (instruction_count c, pc c, halted c))
        (m68k_execute_cycle env m68k_init moveq_program 128)
      = Some (instruction_count m68k_init + 1, 2, False)"
    by (simp add: step_defs m68k_init_def moveq_program_def)
  from init dec bra lea moveq show ?thesis by simp
qed

subsection \<open>C3: out-of-bounds read, write and fetch\<close>

text \<open>
  An ordinary read at or beyond the memory size returns 0 and an ordinary write there
  changes nothing; neither touches the processor state. A fetch with the PC at or beyond
  a non-zero memory size halts, returns 0 and leaves the PC.
\<close>

lemma read_beyond_size:
  "mem_size \<le> ucast addr \<Longrightarrow> m68k_read_memory cpu memory mem_size addr sz = (0, cpu)"
  by (simp add: m68k_read_memory_def)

lemma write_beyond_size:
  "mem_size \<le> ucast addr \<Longrightarrow>
     m68k_write_memory cpu memory mem_size addr val sz = (cpu, memory)"
  by (simp add: m68k_write_memory_def)

lemma fetch_beyond_nonzero_size:
  "mem_size \<noteq> 0 \<Longrightarrow> mem_size \<le> ucast (pc cpu) \<Longrightarrow>
     m68k_fetch_word cpu memory mem_size = (0, cpu\<lparr> halted := True \<rparr>)"
  by (simp add: m68k_fetch_word_def word_pred_le)

text \<open>
  Claim C3 says that every fetch with the PC out of bounds sets the halted flag, returns
  0 and leaves the PC. With a memory size of 0 every PC is out of bounds, but
  \<^verbatim>\<open>mem_size - 1\<close> wraps around to the largest \<^verbatim>\<open>size_t\<close>, the test
  \<^verbatim>\<open>cpu->pc >= mem_size - 1\<close> is false for every PC, and the fetch goes on: it reads
  two bytes outside the buffer, advances the PC by 2, counts a cycle and leaves the halted
  flag as it was.
\<close>

theorem fetch_from_empty_memory_does_not_halt:
  "m68k_fetch_word cpu memory 0 =
     (push_bit 8 (ucast (memory ! unat (pc cpu))) OR ucast (memory ! unat (pc cpu + 1)),
      cpu\<lparr> bus_address := pc cpu AND NOT 0x7F, bus_active := True,
           bus_data := bus_burst memory (pc cpu AND NOT 0x7F),
           pc := pc cpu + 2, cycle_count := cycle_count cpu + 1 \<rparr>)
   \<and> halted (snd (m68k_fetch_word cpu memory 0)) = halted cpu
   \<and> pc (snd (m68k_fetch_word cpu memory 0)) = pc cpu + 2"
  using ucast_u32_below_size_max [of "pc cpu"] by (simp add: m68k_fetch_word_def Let_def)

subsection \<open>C4: DIVU and DIVS\<close>

text \<open>
  In the handlers, a zero divisor sets the halted flag and leaves the data registers; a
  non-zero divisor of DIVU stores the 16-bit remainder above the 16-bit quotient.
\<close>

lemma divu_zero_divisor_halts:
  assumes "ucast (d_reg cpu ! unat (opcode AND 0x7) AND 0xFFFF) = (0 :: u16)"
  shows "\<exists>cpu'. m68k_execute_instruction env cpu memory mem_size OP_DIVU opcode = Some (cpu', memory)
           \<and> halted cpu' \<and> d_reg cpu' = d_reg cpu"
  using assms by (simp add: m68k_execute_instruction_def execute_switch_def Let_def)

lemma divs_zero_divisor_halts:
  assumes "ucast (d_reg cpu ! unat (opcode AND 0x7) AND 0xFFFF) = (0 :: u16)"
  shows "\<exists>cpu'. m68k_execute_instruction env cpu memory mem_size OP_DIVS opcode = Some (cpu', memory)
           \<and> halted cpu' \<and> d_reg cpu' = d_reg cpu"
  using assms by (simp add: m68k_execute_instruction_def execute_switch_def Let_def)

lemma divu_nonzero_divisor:
  assumes "ucast (d_reg cpu ! unat (opcode AND 0x7) AND 0xFFFF) = src" and "src \<noteq> (0 :: u16)"
  shows "\<exists>cpu'. m68k_execute_instruction env cpu memory mem_size OP_DIVU opcode = Some (cpu', memory)
           \<and> d_reg cpu' = (d_reg cpu)[unat (drop_bit 9 opcode AND 0x7) :=
                push_bit 16 (ucast (ucast (d_reg cpu ! unat (drop_bit 9 opcode AND 0x7) mod ucast src) :: u16))
                OR ucast (ucast (d_reg cpu ! unat (drop_bit 9 opcode AND 0x7) div ucast src) :: u16)]"
  using assms by (simp add: m68k_execute_instruction_def execute_switch_def Let_def clear_cv_def)

lemma sint_eq_min_iff: "(sint (x :: u32) = - 2147483648) = (x = 0x80000000)"
proof
  assume "sint x = - 2147483648"
  then have "sint x = sint (0x80000000 :: u32)" by simp
  then show "x = 0x80000000" by (rule signed_word_eqI)
next
  assume "x = 0x80000000" then show "sint x = - 2147483648" by simp
qed

lemma sint_eq_minus1_iff: "(sint (x :: u16) = - 1) = (x = 0xFFFF)"
proof
  assume "sint x = - 1"
  then have "sint x = sint (0xFFFF :: u16)" by simp
  then show "x = 0xFFFF" by (rule signed_word_eqI)
next
  assume "x = 0xFFFF" then show "sint x = - 1" by simp
qed

lemma sint_eq_0_iff: "(sint (x :: u16) = 0) = (x = 0)"
  by (simp add: signed_eq_0_iff)

text \<open>
  DIVS with a non-zero divisor, outside the one pair of operands whose quotient is not
  representable, stores the truncated remainder above the truncated quotient.
\<close>

lemma divs_nonzero_divisor:
  assumes "ucast (d_reg cpu ! unat (opcode AND 0x7) AND 0xFFFF) = src" and "src \<noteq> (0 :: u16)"
      and "\<not> (d_reg cpu ! unat (drop_bit 9 opcode AND 0x7) = 0x80000000 \<and> src = 0xFFFF)"
  shows "\<exists>cpu' q r.
           c_int_div (sint (d_reg cpu ! unat (drop_bit 9 opcode AND 0x7))) (sint src) = Some q
         \<and> c_int_mod (sint (d_reg cpu ! unat (drop_bit 9 opcode AND 0x7))) (sint src) = Some r
         \<and> m68k_execute_instruction env cpu memory mem_size OP_DIVS opcode = Some (cpu', memory)
         \<and> d_reg cpu' = (d_reg cpu)[unat (drop_bit 9 opcode AND 0x7) :=
                push_bit 16 (ucast (word_of_int r :: u16)) OR ucast (word_of_int q :: u16)]"
  using assms
  by (auto simp add: m68k_execute_instruction_def execute_switch_def Let_def clear_cv_def
        c_int_div_def c_int_mod_def sint_eq_min_iff sint_eq_minus1_iff sint_eq_0_iff)

text \<open>
  The decoder's test for the division opcodes, \<^verbatim>\<open>(opcode & 0x01C0) == 0x01C0\<close>, holds
  only when bit 8 is set, so the tag it chooses by bit 8 is always \<open>OP_DIVS\<close>: no opcode
  decodes to \<open>OP_DIVU\<close>. The special family has no case for the arithmetic tags that the
  step operation hands to it.
\<close>

lemma bit8_of_division_mask:
  "(opcode :: u16) AND 0x01C0 = 0x01C0 \<Longrightarrow> drop_bit 8 opcode AND 1 \<noteq> 0"
proof -
  assume a: "opcode AND 0x01C0 = 0x01C0"
  have "bit (opcode AND 0x01C0) 8 = bit (0x01C0 :: u16) 8" by (simp only: a)
  then have "bit opcode 8" by (simp add: bit_and_iff)
  then have "odd (drop_bit 8 opcode)" by (simp add: bit_iff_odd_drop_bit)
  then show ?thesis by (simp add: and_one_eq odd_iff_mod_2_eq_one)
qed

lemma line0_not_divu: "decode_line0 opcode \<noteq> OP_DIVU"
  by (simp add: decode_line0_def Let_def)

lemma line4_not_divu: "decode_line4 opcode \<noteq> OP_DIVU"
  by (simp add: decode_line4_def Let_def)

lemma lineE_not_divu: "decode_lineE opcode \<noteq> OP_DIVU"
  by (simp add: decode_lineE_def Let_def)

lemma decoder_never_yields_divu: "fst (m68k_decode_instruction cpu opcode) \<noteq> OP_DIVU"
  using bit8_of_division_mask [of opcode] line0_not_divu [of opcode] line4_not_divu [of opcode]
    lineE_not_divu [of opcode]
  by (simp add: m68k_decode_instruction_def Let_def)

lemma special_has_no_arithmetic_case:
  "m68k_execute_special cpu memory mem_size OP_ADD opcode = (cpu, memory)"
  "m68k_execute_special cpu memory mem_size OP_SUB opcode = (cpu, memory)"
  "m68k_execute_special cpu memory mem_size OP_CMP opcode = (cpu, memory)"
  "m68k_execute_special cpu memory mem_size OP_DIVS opcode = (cpu, memory)"
  "m68k_execute_special cpu memory mem_size OP_DIVU opcode = (cpu, memory)"
  by (simp_all add: m68k_execute_special_def Let_def)

text \<open>
  Claim C4 says that for every non-zero divisor DIVS stores remainder and quotient in
  the destination, and that executing DIVS with a zero divisor halts. Two inputs where
  the code does otherwise:
  \<^item> \<^verbatim>\<open>DIVS D0,D1\<close> with D1 = 0x80000000 and the low word of D0 = 0xFFFF (divisor -1):
    the handler evaluates \<open>INT_MIN / -1\<close>, which has no result, and nothing is stored;
  \<^item> the step operation over \<^verbatim>\<open>DIVS D0,D1\<close> with D0 = 0: the decoder tags the
    opcode \<open>OP_DIVS\<close>, which lies between \<open>OP_LEA\<close> and \<open>OP_STOP\<close>, so the step hands it to
    \<^verbatim>\<open>m68k_execute_special\<close>, which has no case for it: the processor is not halted.
\<close>

theorem divs_overflow_has_no_result_and_step_skips_handler:
  "m68k_execute_instruction env divs_overflow_cpu memory mem_size OP_DIVS 0x83C0 = None
   \<and> fst (m68k_decode_instruction divs_zero_cpu 0x83C0) = OP_DIVS
   \<and> map_option (\<lambda>(c, m). (halted c, d_reg c, instruction_count c))
        (m68k_execute_cycle env divs_zero_cpu divs_program 128)
      = Some (False, d_reg divs_zero_cpu, 0)"
proof -
  have a: "m68k_execute_instruction env divs_overflow_cpu memory mem_size OP_DIVS 0x83C0 = None"
    by (simp add: m68k_execute_instruction_def execute_switch_def Let_def divs_overflow_cpu_def
          c_int_div_def c_int_mod_def)
  have b: "fst (m68k_decode_instruction divs_zero_cpu 0x83C0) = OP_DIVS"
    by (simp add: m68k_decode_instruction_def Let_def)
  have c: "map_option (\<lambda>(c, m). (halted c, d_reg c, instruction_count c))
        (m68k_execute_cycle env divs_zero_cpu divs_program 128)
      = Some (False, d_reg divs_zero_cpu, 0)"
    by (simp add: step_defs divs_zero_cpu_def divs_program_def m68k_init_def)
  from a b c show ?thesis by simp
qed

end
